theory Spec2Isabelle
  imports Complex_Main "HOL-Library.AList"
begin

section \<open>Schema detection (\<^verbatim>\<open>schema_detector.py\<close>)\<close>

subsection \<open>Characters and strings\<close>

text \<open>
  A Python \<^verbatim>\<open>str\<close> is modelled as a \<^typ>\<open>string\<close>; a \<^typ>\<open>char\<close> is read as the
  code point of the same number (0 to 255). The three character classes below are
  those of \<^verbatim>\<open>str.isspace\<close>, \<^verbatim>\<open>str.isdigit\<close> and \<^verbatim>\<open>str.isalnum\<close> on that range.
\<close>

definition isspace :: "char \<Rightarrow> bool" where
  "isspace c = (let n = (of_char c :: nat) in
     (9 \<le> n \<and> n \<le> 13) \<or> (28 \<le> n \<and> n \<le> 32) \<or> n = 133 \<or> n = 160)"

definition isdigit :: "char \<Rightarrow> bool" where
  "isdigit c = (let n = (of_char c :: nat) in
     (48 \<le> n \<and> n \<le> 57) \<or> n = 178 \<or> n = 179 \<or> n = 185)"

definition isalnum :: "char \<Rightarrow> bool" where
  "isalnum c = (let n = (of_char c :: nat) in
     (48 \<le> n \<and> n \<le> 57) \<or> (65 \<le> n \<and> n \<le> 90) \<or> (97 \<le> n \<and> n \<le> 122) \<or>
     n = 170 \<or> n = 178 \<or> n = 179 \<or> n = 181 \<or> (185 \<le> n \<and> n \<le> 186) \<or>
     (188 \<le> n \<and> n \<le> 190) \<or> (192 \<le> n \<and> n \<le> 214) \<or> (216 \<le> n \<and> n \<le> 246) \<or>
     248 \<le> n)"

text \<open>\<^verbatim>\<open>s.strip()\<close>: leading and trailing whitespace removed.\<close>

definition strip :: "string \<Rightarrow> string" where
  "strip s = rev (dropWhile isspace (rev (dropWhile isspace s)))"

text \<open>\<^verbatim>\<open>s.replace(" ", "_")\<close>.\<close>

definition replace_spaces :: "string \<Rightarrow> string" where
  "replace_spaces s = map (\<lambda>c. if c = CHR '' '' then CHR ''_'' else c) s"

subsection \<open>\<^verbatim>\<open>clean_column_name\<close>\<close>

definition clean_column_name :: "string \<Rightarrow> string" where
  "clean_column_name name =
     (let cleaned = replace_spaces (strip name);
          cleaned = map (\<lambda>c. if isalnum c \<or> c = CHR ''_'' then c else CHR ''_'') cleaned;
          cleaned = (if cleaned \<noteq> [] \<and> isdigit (hd cleaned) then ''col_'' @ cleaned else cleaned);
          cleaned = (if cleaned = [] then ''Column_A'' else cleaned)
      in cleaned)"

text \<open>
  The strings that \<^const>\<open>clean_column_name\<close> leaves as they are: non-empty, made of
  alphanumeric characters and underscores, not starting with a digit.
\<close>

definition ident_char :: "char \<Rightarrow> bool" where
  "ident_char c = (isalnum c \<or> c = CHR ''_'')"

definition valid_identifier :: "string \<Rightarrow> bool" where
  "valid_identifier s = (s \<noteq> [] \<and> list_all ident_char s \<and> \<not> isdigit (hd s))"

subsection \<open>Exceptions\<close>

text \<open>
  Every exception class that one of the modelled functions can raise or catch, with its
  message. \<^verbatim>\<open>Sqlite3Error\<close> stands for \<^verbatim>\<open>sqlite3.Error\<close> and its subclasses,
  \<^verbatim>\<open>PandasDatabaseError\<close> for \<^verbatim>\<open>pandas.errors.DatabaseError\<close>, which is not one of them.
\<close>

datatype exn =
    KeyError string
  | ValueError string
  | IndexError string
  | SchemaDetectionError string
  | Sqlite3Error string
  | PandasDatabaseError string
  | DatabaseError string

text \<open>\<^verbatim>\<open>str(e)\<close>: a \<^verbatim>\<open>KeyError\<close> prints the \<^verbatim>\<open>repr\<close> of its key.\<close>

fun exn_str :: "exn \<Rightarrow> string" where
  "exn_str (KeyError k) = [CHR 0x27] @ k @ [CHR 0x27]"
| "exn_str (ValueError m) = m"
| "exn_str (IndexError m) = m"
| "exn_str (SchemaDetectionError m) = m"
| "exn_str (Sqlite3Error m) = m"
| "exn_str (PandasDatabaseError m) = m"
| "exn_str (DatabaseError m) = m"

subsection \<open>Tabular data: the part of pandas that the code uses\<close>

text \<open>
  A cell is a Python scalar or missing (\<^verbatim>\<open>None\<close>, \<^verbatim>\<open>NaN\<close>, \<^verbatim>\<open>NaT\<close>: whatever
  \<^verbatim>\<open>pd.isna\<close> accepts), the latter being \<^const>\<open>None\<close>. A finite float is the rational
  it denotes; a \<^verbatim>\<open>pd.Timestamp\<close> is represented by its \<^verbatim>\<open>isoformat()\<close> text.
\<close>

datatype scalar =
    IntV int
  | FloatV rat
  | BoolV bool
  | StrV string
  | TimestampV string

type_synonym cell = "scalar option"

datatype dtype = Int64 | Float64 | Bool | Datetime64 | Object

record series =
  dtype :: dtype
  cells :: "cell list"

text \<open>
  A data frame: the length of its index and its labelled columns in order. Labels may
  repeat (assigning \<^verbatim>\<open>df.columns\<close> does not check them).
\<close>

record dataframe =
  nrows :: nat
  df_columns :: "(string \<times> series) list"

text \<open>What pandas guarantees about the cells of a column of each dtype.\<close>

fun cell_fits :: "dtype \<Rightarrow> cell \<Rightarrow> bool" where
  "cell_fits Int64 (Some (IntV i)) = True"
| "cell_fits Int64 c = False"
| "cell_fits Float64 None = True"
| "cell_fits Float64 (Some (FloatV r)) = True"
| "cell_fits Float64 c = False"
| "cell_fits Bool (Some (BoolV b)) = True"
| "cell_fits Bool c = False"
| "cell_fits Datetime64 None = True"
| "cell_fits Datetime64 (Some (TimestampV t)) = True"
| "cell_fits Datetime64 c = False"
| "cell_fits Object c = True"

definition wf_series :: "series \<Rightarrow> bool" where
  "wf_series s = list_all (cell_fits (dtype s)) (cells s)"

text \<open>\<^verbatim>\<open>s.dropna()\<close> keeps the dtype; \<^verbatim>\<open>s.isna().all()\<close>; \<^verbatim>\<open>s.notna().any()\<close>.\<close>

definition dropna :: "series \<Rightarrow> series" where
  "dropna s = s\<lparr>cells := filter (\<lambda>c. c \<noteq> None) (cells s)\<rparr>"

definition isna_all :: "series \<Rightarrow> bool" where
  "isna_all s = list_all (\<lambda>c. c = None) (cells s)"

definition notna_any :: "series \<Rightarrow> bool" where
  "notna_any s = list_ex (\<lambda>c. c \<noteq> None) (cells s)"

text \<open>
  \<^verbatim>\<open>s.nunique()\<close> counts the distinct non-missing values. Distinct is Python's \<^verbatim>\<open>==\<close>
  (with equal hashes): \<^verbatim>\<open>1\<close>, \<^verbatim>\<open>1.0\<close> and \<^verbatim>\<open>True\<close> are one value. \<^verbatim>\<open>key_of\<close> maps a
  scalar to the representative of its class.
\<close>

datatype py_key = NumK rat | StrK string | TimestampK string

fun key_of :: "scalar \<Rightarrow> py_key" where
  "key_of (IntV i) = NumK (of_int i)"
| "key_of (FloatV r) = NumK r"
| "key_of (BoolV b) = NumK (if b then 1 else 0)"
| "key_of (StrV s) = StrK s"
| "key_of (TimestampV t) = TimestampK t"

definition present :: "series \<Rightarrow> scalar list" where
  "present s = List.map_filter id (cells s)"

definition nunique :: "series \<Rightarrow> nat" where
  "nunique s = length (remdups (map key_of (present s)))"

text \<open>
  \<^verbatim>\<open>df[col]\<close> used as a column. A label that is absent raises \<^verbatim>\<open>KeyError\<close>. A label
  that several columns carry selects a frame, not a column; both functions below first
  use the selection in the test of an \<^verbatim>\<open>if\<close> (\<^verbatim>\<open>df[col].isna().all()\<close>,
  \<^verbatim>\<open>df[col].notna().any()\<close>), which is then a Series of booleans whose truth value
  raises \<^verbatim>\<open>ValueError\<close>.
\<close>

definition ambiguous :: string where
  "ambiguous = ''The truth value of a Series is ambiguous. Use a.empty, a.bool(), a.item(), a.any() or a.all().''"

definition get_column :: "dataframe \<Rightarrow> string \<Rightarrow> exn + series" where
  "get_column df col =
     (case filter (\<lambda>(l, s). l = col) (df_columns df) of
        [] \<Rightarrow> Inl (KeyError col)
      | [(l, s)] \<Rightarrow> Inr s
      | _ \<Rightarrow> Inl (ValueError ambiguous))"

subsection \<open>\<^verbatim>\<open>infer_column_types\<close>\<close>

text \<open>
  The dtype tests of \<^verbatim>\<open>pandas.api.types\<close>. \<^verbatim>\<open>is_date_column\<close> asks whether
  \<^verbatim>\<open>pd.to_datetime(series, errors="raise")\<close> returns; the date parser is not part of
  the program and is a parameter \<open>to_datetime\<close> of the functions that reach it.
\<close>

definition is_datetime64_any_dtype :: "series \<Rightarrow> bool" where
  "is_datetime64_any_dtype s = (dtype s = Datetime64)"

definition is_integer_dtype :: "series \<Rightarrow> bool" where
  "is_integer_dtype s = (dtype s = Int64)"

definition is_float_dtype :: "series \<Rightarrow> bool" where
  "is_float_dtype s = (dtype s = Float64)"

definition is_date_column :: "(series \<Rightarrow> bool) \<Rightarrow> series \<Rightarrow> bool" where
  "is_date_column to_datetime s = to_datetime s"

text \<open>The body of the loop: the type of one column.\<close>

definition infer_type :: "(series \<Rightarrow> bool) \<Rightarrow> series \<Rightarrow> string" where
  "infer_type to_datetime s =
     (if isna_all s then ''str''
      else if is_datetime64_any_dtype s then ''date''
      else let non_null = dropna s in
        if length (cells non_null) = 0 then ''str''
        else if is_integer_dtype non_null then ''int''
        else if is_float_dtype non_null then ''float''
        else if is_date_column to_datetime non_null then ''date''
        else ''str'')"

text \<open>The loop over \<^verbatim>\<open>df.columns\<close>, filling the dictionary \<^verbatim>\<open>types\<close>.\<close>

fun infer_loop ::
  "(series \<Rightarrow> bool) \<Rightarrow> dataframe \<Rightarrow> string list \<Rightarrow> (string \<rightharpoonup> string) \<Rightarrow> exn + (string \<rightharpoonup> string)" where
  "infer_loop to_datetime df [] tys = Inr tys"
| "infer_loop to_datetime df (col # rest) tys =
     (case get_column df col of
        Inl e \<Rightarrow> Inl e
      | Inr s \<Rightarrow> infer_loop to_datetime df rest (tys(col \<mapsto> infer_type to_datetime s)))"

definition infer_column_types :: "(series \<Rightarrow> bool) \<Rightarrow> dataframe \<Rightarrow> exn + (string \<rightharpoonup> string)" where
  "infer_column_types to_datetime df =
     infer_loop to_datetime df (map fst (df_columns df)) Map.empty"

subsection \<open>\<^verbatim>\<open>detect_primary_key\<close>\<close>

text \<open>The test made on the first column and then on every other one.\<close>

definition unique_column :: "series \<Rightarrow> bool" where
  "unique_column s =
     (notna_any s \<and>
      (let unique_count = nunique s; total_count = length (cells (dropna s))
       in unique_count = total_count \<and> total_count > 0))"

fun pk_loop :: "dataframe \<Rightarrow> string \<Rightarrow> string list \<Rightarrow> exn + string" where
  "pk_loop df first_col [] = Inr ''id''"
| "pk_loop df first_col (col # rest) =
     (if col = first_col then pk_loop df first_col rest
      else case get_column df col of
        Inl e \<Rightarrow> Inl e
      | Inr s \<Rightarrow> if unique_column s then Inr col else pk_loop df first_col rest)"

definition detect_primary_key :: "dataframe \<Rightarrow> string list \<Rightarrow> exn + string" where
  "detect_primary_key df cols =
     (case cols of
        [] \<Rightarrow> Inr ''id''
      | first_col # _ \<Rightarrow>
          (case get_column df first_col of
             Inl e \<Rightarrow> Inl e
           | Inr s \<Rightarrow> if unique_column s then Inr first_col else pk_loop df first_col cols))"

text \<open>
  The property the selector is meant to test, in the words of its specification: the
  non-missing values are pairwise distinct and there is at least one.
\<close>

definition all_distinct :: "series \<Rightarrow> bool" where
  "all_distinct s = (present s \<noteq> [] \<and> distinct (map key_of (present s)))"

definition qualifies :: "dataframe \<Rightarrow> string \<Rightarrow> bool" where
  "qualifies df col = (case get_column df col of Inl e \<Rightarrow> False | Inr s \<Rightarrow> all_distinct s)"

text \<open>A value with no fractional part.\<close>

fun whole :: "scalar \<Rightarrow> bool" where
  "whole (IntV i) = True"
| "whole (FloatV r) = (frac r = 0)"
| "whole v = False"

subsection \<open>\<^verbatim>\<open>detect_schema\<close>\<close>

record schema =
  columns :: "string list"
  types :: "string \<rightharpoonup> string"
  primary_key :: string

text \<open>\<^verbatim>\<open>str(n)\<close> for a natural number, and \<^verbatim>\<open>s.startswith(p)\<close>.\<close>

fun str_nat :: "nat \<Rightarrow> string" where
  "str_nat n =
     (if n < 10 then [''0123456789'' ! n]
      else str_nat (n div 10) @ [''0123456789'' ! (n mod 10)])"

declare str_nat.simps [simp del]

definition startswith :: "string \<Rightarrow> string \<Rightarrow> bool" where
  "startswith s p = (take (length p) s = p)"

text \<open>\<^verbatim>\<open>df.empty\<close>, and the assignment \<^verbatim>\<open>df.columns = labels\<close> of as many labels as columns.\<close>

definition df_empty :: "dataframe \<Rightarrow> bool" where
  "df_empty df = (nrows df = 0 \<or> df_columns df = [])"

definition set_columns :: "dataframe \<Rightarrow> string list \<Rightarrow> dataframe" where
  "set_columns df labels = df\<lparr>df_columns := zip labels (map snd (df_columns df))\<rparr>"

text \<open>
  The labels after the two renaming steps: \<^verbatim>\<open>Column1\<close>, \<^verbatim>\<open>Column2\<close>, ... when the
  first label starts with \<^verbatim>\<open>Unnamed\<close>, and then \<^const>\<open>clean_column_name\<close> on each.
\<close>

definition header_labels :: "dataframe \<Rightarrow> string list" where
  "header_labels df =
     (if startswith (fst (hd (df_columns df))) ''Unnamed''
      then map (\<lambda>i. ''Column'' @ str_nat (i + 1)) [0..<length (df_columns df)]
      else map fst (df_columns df))"

definition cleaned_labels :: "dataframe \<Rightarrow> string list" where
  "cleaned_labels df = map clean_column_name (header_labels df)"

text \<open>
  The body of the \<^verbatim>\<open>try\<close> block, from the data frame that \<^verbatim>\<open>pd.read_excel\<close>
  returned. \<^verbatim>\<open>hd\<close> is applied to a non-empty list only.
\<close>

definition detect_schema_try :: "(series \<Rightarrow> bool) \<Rightarrow> dataframe \<Rightarrow> exn + schema" where
  "detect_schema_try to_datetime df =
     (if df_empty df then Inl (SchemaDetectionError ''Excel file contains no data'')
      else if length (df_columns df) = 0 then Inl (SchemaDetectionError ''Excel file has no columns'')
      else
        let cols = cleaned_labels df;
            df = set_columns df cols
        in case infer_column_types to_datetime df of
             Inl e \<Rightarrow> Inl e
           | Inr tys \<Rightarrow>
               (case detect_primary_key df cols of
                  Inl e \<Rightarrow> Inl e
                | Inr pk \<Rightarrow> Inr \<lparr>columns = cols, types = tys, primary_key = pk\<rparr>))"

text \<open>
  The handlers: \<^verbatim>\<open>EmptyDataError\<close> and \<^verbatim>\<open>ParserError\<close> come from reading the file
  only; every other exception of the body, its own \<^verbatim>\<open>SchemaDetectionError\<close> included,
  reaches \<^verbatim>\<open>except Exception\<close> and is raised again as a \<^verbatim>\<open>SchemaDetectionError\<close>.
\<close>

definition detect_schema :: "(series \<Rightarrow> bool) \<Rightarrow> dataframe \<Rightarrow> exn + schema" where
  "detect_schema to_datetime df =
     (case detect_schema_try to_datetime df of
        Inl e \<Rightarrow> Inl (SchemaDetectionError (''Unexpected error during schema detection: '' @ exn_str e))
      | Inr sch \<Rightarrow> Inr sch)"

section \<open>The relational engine, as far as the adapter uses it\<close>

text \<open>
  The adapter talks to SQLite through \<^verbatim>\<open>sqlite3\<close>. The engine is not part of the
  program; this section models the statements that the adapter sends and the answers it
  reads: whether a table and a column exist, the primary key and its uniqueness, the row
  identifiers, the number of rows a statement changed, and the table's metadata.
  Identifiers are taken to be plain SQL identifiers (the adapter interpolates them
  unquoted) and are compared without regard to ASCII case, as the engine does. Values are
  stored as they are bound, but for a whole number bound to an
  \<^verbatim>\<open>INTEGER PRIMARY KEY\<close>; the other conversions of column affinity are left out.
\<close>

datatype sqlval = Null | SInt int | SReal rat | SText string

datatype col_constraint = NoConstraint | PrimaryKey | PrimaryKeyAutoincrement

record col_def =
  cname :: string
  ctype :: string
  cconstraint :: col_constraint

text \<open>
  A table: its columns, its rows in the order of their row identifiers, and the largest
  row identifier ever used (what \<^verbatim>\<open>AUTOINCREMENT\<close> keeps in \<^verbatim>\<open>sqlite_sequence\<close>).
\<close>

record table =
  t_columns :: "col_def list"
  t_rows :: "(int \<times> sqlval list) list"
  t_sequence :: int

type_synonym database = "(string \<times> table) list"

definition lower_char :: "char \<Rightarrow> char" where
  "lower_char c =
     (case map_of (zip ''ABCDEFGHIJKLMNOPQRSTUVWXYZ'' ''abcdefghijklmnopqrstuvwxyz'') c of
        Some l \<Rightarrow> l | None \<Rightarrow> c)"

definition lower :: "string \<Rightarrow> string" where
  "lower s = map lower_char s"

definition same_name :: "string \<Rightarrow> string \<Rightarrow> bool" where
  "same_name a b = (lower a = lower b)"

definition find_table :: "database \<Rightarrow> string \<Rightarrow> table option" where
  "find_table db t = map_of db (lower t)"

definition store_table :: "database \<Rightarrow> string \<Rightarrow> table \<Rightarrow> database" where
  "store_table db t tb = AList.update (lower t) tb db"

text \<open>The position of a column in a table, by name.\<close>

fun column_index :: "col_def list \<Rightarrow> string \<Rightarrow> nat option" where
  "column_index [] c = None"
| "column_index (d # ds) c =
     (if same_name (cname d) c then Some 0 else map_option Suc (column_index ds c))"

text \<open>
  The primary-key column, if one is declared; a column declared
  \<^verbatim>\<open>INTEGER PRIMARY KEY\<close> is another name of the row identifier.
\<close>

fun pk_index :: "col_def list \<Rightarrow> nat option" where
  "pk_index [] = None"
| "pk_index (d # ds) =
     (if cconstraint d \<noteq> NoConstraint then Some 0 else map_option Suc (pk_index ds))"

definition is_rowid_alias :: "col_def \<Rightarrow> bool" where
  "is_rowid_alias d = (same_name (ctype d) ''INTEGER'' \<and> cconstraint d \<noteq> NoConstraint)"

definition has_autoincrement :: "col_def list \<Rightarrow> bool" where
  "has_autoincrement ds = list_ex (\<lambda>d. cconstraint d = PrimaryKeyAutoincrement) ds"

text \<open>
  The comparison \<^verbatim>\<open>column = ?\<close>: never true of \<^verbatim>\<open>NULL\<close>, numeric between numbers,
  textual between texts.
\<close>

fun sql_eq :: "sqlval \<Rightarrow> sqlval \<Rightarrow> bool" where
  "sql_eq (SInt i) (SInt j) = (i = j)"
| "sql_eq (SInt i) (SReal r) = (of_int i = r)"
| "sql_eq (SReal r) (SInt i) = (r = of_int i)"
| "sql_eq (SReal r) (SReal q) = (r = q)"
| "sql_eq (SText a) (SText b) = (a = b)"
| "sql_eq a b = False"

text \<open>
  The statements of the adapter, each with as many \<^verbatim>\<open>?\<close> as parameters bound at
  execution:
  \<^item> \<^verbatim>\<open>CREATE TABLE IF NOT EXISTS t (defs)\<close>
  \<^item> \<^verbatim>\<open>INSERT INTO t (cols) VALUES (?, ...)\<close>
  \<^item> \<^verbatim>\<open>SELECT * FROM t\<close>
  \<^item> \<^verbatim>\<open>UPDATE t SET c = ?, ... WHERE k = ?\<close>
  \<^item> \<^verbatim>\<open>DELETE FROM t WHERE k = ?\<close>
  \<^item> \<^verbatim>\<open>PRAGMA table_info(t)\<close>
\<close>

datatype stmt =
    CreateTableIfNotExists string "col_def list"
  | InsertInto string "string list"
  | SelectAll string
  | UpdateWhere string "string list" string
  | DeleteWhere string string
  | PragmaTableInfo string

text \<open>What a cursor holds after a statement.\<close>

record cursor =
  rowcount :: int
  lastrowid :: "int option"
  description :: "string list"
  fetchall :: "sqlval list list"

definition no_rows :: cursor where
  "no_rows = \<lparr>rowcount = - 1, lastrowid = None, description = [], fetchall = []\<rparr>"

definition no_such_table :: "string \<Rightarrow> exn" where
  "no_such_table t = Sqlite3Error (''no such table: '' @ t)"

definition no_such_column :: "string \<Rightarrow> exn" where
  "no_such_column c = Sqlite3Error (''no such column: '' @ c)"

definition unique_failed :: "string \<Rightarrow> string \<Rightarrow> exn" where
  "unique_failed t c = Sqlite3Error (''UNIQUE constraint failed: '' @ t @ ''.'' @ c)"

definition bindings_error :: exn where
  "bindings_error = Sqlite3Error ''Incorrect number of bindings supplied.''"

definition syntax_error :: exn where
  "syntax_error = Sqlite3Error ''near \")\": syntax error''"

subsection \<open>\<^verbatim>\<open>CREATE TABLE IF NOT EXISTS\<close>\<close>

fun first_duplicate :: "string list \<Rightarrow> string option" where
  "first_duplicate [] = None"
| "first_duplicate (c # cs) =
     (case first_duplicate cs of
        Some d \<Rightarrow> Some d
      | None \<Rightarrow> if list_ex (same_name c) cs then Some c else None)"

definition exec_create :: "string \<Rightarrow> col_def list \<Rightarrow> database \<Rightarrow> exn + database" where
  "exec_create t defs db =
     (if defs = [] then Inl syntax_error
      else case find_table db t of
        Some tb \<Rightarrow> Inr db
      | None \<Rightarrow>
          (case first_duplicate (rev (map cname defs)) of
             Some c \<Rightarrow> Inl (Sqlite3Error (''duplicate column name: '' @ c))
           | None \<Rightarrow>
               if length (filter (\<lambda>d. cconstraint d \<noteq> NoConstraint) defs) > 1
               then Inl (Sqlite3Error (''table \"'' @ t @ ''\" has more than one primary key''))
               else Inr (store_table db t \<lparr>t_columns = defs, t_rows = [], t_sequence = 0\<rparr>)))"

subsection \<open>\<^verbatim>\<open>INSERT\<close>\<close>

text \<open>The row that an insert builds: a column that is not listed gets \<^verbatim>\<open>NULL\<close>.\<close>

definition row_values :: "col_def list \<Rightarrow> string list \<Rightarrow> sqlval list \<Rightarrow> sqlval list" where
  "row_values defs cols params =
     map (\<lambda>d. case find (\<lambda>(c, v). same_name c (cname d)) (zip cols params) of
                 Some (c, v) \<Rightarrow> v
               | None \<Rightarrow> Null) defs"

definition max_rowid :: "(int \<times> sqlval list) list \<Rightarrow> int" where
  "max_rowid rows = (if rows = [] then 0 else fst (last rows))"

definition next_rowid :: "table \<Rightarrow> int" where
  "next_rowid tb =
     (if has_autoincrement (t_columns tb) then max (t_sequence tb) (max_rowid (t_rows tb))
      else max_rowid (t_rows tb)) + 1"

text \<open>
  The row identifier that a value bound to an \<^verbatim>\<open>INTEGER PRIMARY KEY\<close> asks for:
  \<^verbatim>\<open>NULL\<close> asks for a new one, a whole number for itself, anything else is refused.
\<close>

definition datatype_mismatch :: exn where
  "datatype_mismatch = Sqlite3Error ''datatype mismatch''"

fun alias_rowid :: "table \<Rightarrow> sqlval \<Rightarrow> exn + int" where
  "alias_rowid tb Null = Inr (next_rowid tb)"
| "alias_rowid tb (SInt i) = Inr i"
| "alias_rowid tb (SReal r) = (if frac r = 0 then Inr \<lfloor>r\<rfloor> else Inl datatype_mismatch)"
| "alias_rowid tb (SText s) = Inl datatype_mismatch"

definition add_row :: "string \<Rightarrow> table \<Rightarrow> int \<Rightarrow> sqlval list \<Rightarrow> database \<Rightarrow> cursor \<times> database" where
  "add_row t tb rid vals db =
     (\<lparr>rowcount = 1, lastrowid = Some rid, description = [], fetchall = []\<rparr>,
      store_table db t
        (tb\<lparr>t_rows := insort_key fst (rid, vals) (t_rows tb),
            t_sequence := (if has_autoincrement (t_columns tb) then max (t_sequence tb) rid
                           else t_sequence tb)\<rparr>))"

definition exec_insert ::
  "string \<Rightarrow> string list \<Rightarrow> sqlval list \<Rightarrow> database \<Rightarrow> exn + cursor \<times> database" where
  "exec_insert t cols params db =
     (if cols = [] then Inl syntax_error
      else case find_table db t of
        None \<Rightarrow> Inl (no_such_table t)
      | Some tb \<Rightarrow>
          (case find (\<lambda>c. column_index (t_columns tb) c = None) cols of
             Some c \<Rightarrow> Inl (Sqlite3Error (''table '' @ t @ '' has no column named '' @ c))
           | None \<Rightarrow>
               if length params \<noteq> length cols then Inl bindings_error
               else
                 let vals = row_values (t_columns tb) cols params in
                 (case pk_index (t_columns tb) of
                    None \<Rightarrow> Inr (add_row t tb (next_rowid tb) vals db)
                  | Some k \<Rightarrow>
                      let d = t_columns tb ! k in
                      if is_rowid_alias d then
                        (case alias_rowid tb (vals ! k) of
                           Inl e \<Rightarrow> Inl e
                         | Inr rid \<Rightarrow>
                             if rid \<in> set (map fst (t_rows tb)) then Inl (unique_failed t (cname d))
                             else Inr (add_row t tb rid (vals[k := SInt rid]) db))
                      else if list_ex (\<lambda>(rid, row). sql_eq (row ! k) (vals ! k)) (t_rows tb)
                      then Inl (unique_failed t (cname d))
                      else Inr (add_row t tb (next_rowid tb) vals db))))"

subsection \<open>\<^verbatim>\<open>SELECT *\<close>, \<^verbatim>\<open>DELETE\<close>, \<^verbatim>\<open>UPDATE\<close>, \<^verbatim>\<open>PRAGMA table_info\<close>\<close>

definition exec_select :: "string \<Rightarrow> database \<Rightarrow> exn + cursor \<times> database" where
  "exec_select t db =
     (case find_table db t of
        None \<Rightarrow> Inl (no_such_table t)
      | Some tb \<Rightarrow>
          Inr (\<lparr>rowcount = - 1, lastrowid = None, description = map cname (t_columns tb),
                fetchall = map snd (t_rows tb)\<rparr>, db))"

definition exec_delete :: "string \<Rightarrow> string \<Rightarrow> sqlval list \<Rightarrow> database \<Rightarrow> exn + cursor \<times> database" where
  "exec_delete t c params db =
     (case find_table db t of
        None \<Rightarrow> Inl (no_such_table t)
      | Some tb \<Rightarrow>
          (case column_index (t_columns tb) c of
             None \<Rightarrow> Inl (no_such_column c)
           | Some k \<Rightarrow>
               (case params of
                  [key] \<Rightarrow>
                    let kept = filter (\<lambda>(rid, row). \<not> sql_eq (row ! k) key) (t_rows tb) in
                    Inr (\<lparr>rowcount = int (length (t_rows tb)) - int (length kept), lastrowid = None,
                          description = [], fetchall = []\<rparr>,
                         store_table db t (tb\<lparr>t_rows := kept\<rparr>))
                | _ \<Rightarrow> Inl bindings_error)))"

text \<open>
  An update writes the new values into every row that matches. Where it writes the
  primary key, the key must stay unique, and a row identifier must stay a whole number.
\<close>

fun assign :: "col_def list \<Rightarrow> (string \<times> sqlval) list \<Rightarrow> sqlval list \<Rightarrow> sqlval list" where
  "assign defs [] row = row"
| "assign defs ((c, v) # rest) row =
     (case column_index defs c of
        None \<Rightarrow> assign defs rest row
      | Some k \<Rightarrow> assign defs rest (row[k := v]))"

definition updated_row :: "col_def list \<Rightarrow> (int \<times> sqlval list) \<Rightarrow> exn + (int \<times> sqlval list)" where
  "updated_row defs r =
     (case pk_index defs of
        None \<Rightarrow> Inr r
      | Some k \<Rightarrow>
          if is_rowid_alias (defs ! k) then
            (case snd r ! k of
               SInt i \<Rightarrow> Inr (i, snd r)
             | SReal q \<Rightarrow> if frac q = 0 then Inr (\<lfloor>q\<rfloor>, (snd r)[k := SInt \<lfloor>q\<rfloor>]) else Inl datatype_mismatch
             | _ \<Rightarrow> Inl datatype_mismatch)
          else Inr r)"

fun update_rows ::
  "col_def list \<Rightarrow> (string \<times> sqlval) list \<Rightarrow> nat \<Rightarrow> sqlval \<Rightarrow> (int \<times> sqlval list) list \<Rightarrow>
   exn + nat \<times> (int \<times> sqlval list) list" where
  "update_rows defs sets k key [] = Inr (0, [])"
| "update_rows defs sets k key (r # rows) =
     (if sql_eq (snd r ! k) key then
        (case updated_row defs (fst r, assign defs sets (snd r)) of
           Inl e \<Rightarrow> Inl e
         | Inr r' \<Rightarrow>
             (case update_rows defs sets k key rows of
                Inl e \<Rightarrow> Inl e
              | Inr (n, rows') \<Rightarrow> Inr (Suc n, r' # rows')))
      else
        (case update_rows defs sets k key rows of
           Inl e \<Rightarrow> Inl e
         | Inr (n, rows') \<Rightarrow> Inr (n, r # rows')))"

fun keys_unique :: "nat \<Rightarrow> (int \<times> sqlval list) list \<Rightarrow> bool" where
  "keys_unique k [] = True"
| "keys_unique k (r # rows) =
     (\<not> list_ex (\<lambda>r'. sql_eq (snd r' ! k) (snd r ! k)) rows \<and> keys_unique k rows)"

definition pk_name :: "col_def list \<Rightarrow> string" where
  "pk_name defs = (case pk_index defs of None \<Rightarrow> ''rowid'' | Some p \<Rightarrow> cname (defs ! p))"

definition exec_update ::
  "string \<Rightarrow> string list \<Rightarrow> string \<Rightarrow> sqlval list \<Rightarrow> database \<Rightarrow> exn + cursor \<times> database" where
  "exec_update t set_cols c params db =
     (if set_cols = [] then Inl syntax_error
      else case find_table db t of
        None \<Rightarrow> Inl (no_such_table t)
      | Some tb \<Rightarrow>
          (case find (\<lambda>c. column_index (t_columns tb) c = None) (set_cols @ [c]) of
             Some c' \<Rightarrow> Inl (no_such_column c')
           | None \<Rightarrow>
               if length params \<noteq> length set_cols + 1 then Inl bindings_error
               else
                 (case column_index (t_columns tb) c of
                    None \<Rightarrow> Inl (no_such_column c)
                  | Some k \<Rightarrow>
                      (case update_rows (t_columns tb) (zip set_cols (butlast params)) k (last params)
                              (t_rows tb) of
                         Inl e \<Rightarrow> Inl e
                       | Inr (n, rows') \<Rightarrow>
                           if \<not> distinct (map fst rows') then
                             Inl (unique_failed t (pk_name (t_columns tb)))
                           else if (case pk_index (t_columns tb) of
                                      None \<Rightarrow> False | Some p \<Rightarrow> \<not> keys_unique p rows')
                           then Inl (unique_failed t (pk_name (t_columns tb)))
                           else
                             Inr (\<lparr>rowcount = int n, lastrowid = None, description = [], fetchall = []\<rparr>,
                                  store_table db t (tb\<lparr>t_rows := sort_key fst rows'\<rparr>))))))"

text \<open>
  One row per column: position, name, declared type, not-null flag, default, and the
  position of the column in the primary key (1 for the key column, 0 otherwise). A table
  that does not exist has no rows here; it is no error.
\<close>

definition info_row :: "nat \<Rightarrow> col_def \<Rightarrow> sqlval list" where
  "info_row i d =
     [SInt (int i), SText (cname d), SText (ctype d), SInt 0, Null,
      SInt (if cconstraint d \<noteq> NoConstraint then 1 else 0)]"

definition exec_table_info :: "string \<Rightarrow> database \<Rightarrow> exn + cursor \<times> database" where
  "exec_table_info t db =
     (let info_columns = [''cid'', ''name'', ''type'', ''notnull'', ''dflt_value'', ''pk''] in
      case find_table db t of
        None \<Rightarrow> Inr (no_rows\<lparr>description := info_columns\<rparr>, db)
      | Some tb \<Rightarrow>
          Inr (no_rows\<lparr>description := info_columns,
                        fetchall := map (\<lambda>(i, d). info_row i d) (enumerate 0 (t_columns tb))\<rparr>, db))"

subsection \<open>Connections and transactions\<close>

text \<open>
  The database file holds the committed tables. A connection works on its own view of
  them: what it changes is seen by others only once it commits, and is dropped when it
  rolls back or is closed without a commit. The statements sent are recorded, so that
  "no statement was sent" can be said.
\<close>

record connection =
  working :: database
  sent :: "(stmt \<times> sqlval list) list"

record store =
  committed :: database
  available :: bool
  open_connections :: nat
  sql_log :: "(stmt \<times> sqlval list) list"

definition run_stmt :: "stmt \<Rightarrow> sqlval list \<Rightarrow> database \<Rightarrow> exn + cursor \<times> database" where
  "run_stmt st params db =
     (case st of
        CreateTableIfNotExists t defs \<Rightarrow>
          (if params \<noteq> [] then Inl bindings_error
           else case exec_create t defs db of Inl e \<Rightarrow> Inl e | Inr db' \<Rightarrow> Inr (no_rows, db'))
      | InsertInto t cols \<Rightarrow> exec_insert t cols params db
      | SelectAll t \<Rightarrow> (if params \<noteq> [] then Inl bindings_error else exec_select t db)
      | UpdateWhere t set_cols c \<Rightarrow> exec_update t set_cols c params db
      | DeleteWhere t c \<Rightarrow> exec_delete t c params db
      | PragmaTableInfo t \<Rightarrow> (if params \<noteq> [] then Inl bindings_error else exec_table_info t db))"

text \<open>\<^verbatim>\<open>conn.execute(sql, params)\<close>: a statement that fails changes nothing.\<close>

definition execute :: "stmt \<Rightarrow> sqlval list \<Rightarrow> connection \<Rightarrow> (exn + cursor) \<times> connection" where
  "execute st params conn =
     (let conn = conn\<lparr>sent := sent conn @ [(st, params)]\<rparr> in
      case run_stmt st params (working conn) of
        Inl e \<Rightarrow> (Inl e, conn)
      | Inr (cur, db') \<Rightarrow> (Inr cur, conn\<lparr>working := db'\<rparr>))"

text \<open>
  \<^verbatim>\<open>conn.executemany(sql, rows)\<close>: the statement once per row, stopping at the first
  failure; the rows before it stay in the connection's view until it is rolled back.
\<close>

fun executemany :: "stmt \<Rightarrow> sqlval list list \<Rightarrow> connection \<Rightarrow> (exn + unit) \<times> connection" where
  "executemany st [] conn = (Inr (), conn)"
| "executemany st (params # rest) conn =
     (case execute st params conn of
        (Inl e, conn') \<Rightarrow> (Inl e, conn')
      | (Inr cur, conn') \<Rightarrow> executemany st rest conn')"

section \<open>The adapter (\<^verbatim>\<open>db_manager.py\<close>)\<close>

record database_manager =
  db_path :: string
  table_name :: string

text \<open>
  \<^verbatim>\<open>get_connection\<close> is a context manager; \<open>body\<close> is the block under \<^verbatim>\<open>with\<close>. The
  database of the model is the file at \<^verbatim>\<open>db_path\<close>.
  \<^item> \<^verbatim>\<open>sqlite3.connect\<close> fails: \<^verbatim>\<open>conn\<close> is still \<^verbatim>\<open>None\<close>, nothing to roll back or close.
  \<^item> The block returns: commit, then close.
  \<^item> The block raises an \<^verbatim>\<open>sqlite3.Error\<close>: roll back, raise \<^verbatim>\<open>DatabaseError\<close>, close.
  \<^item> The block raises anything else: no handler matches; \<^verbatim>\<open>finally\<close> closes the
    connection, which drops what was not committed, and the exception goes on.
\<close>

definition get_connection ::
  "database_manager \<Rightarrow> (connection \<Rightarrow> (exn + 'a) \<times> connection) \<Rightarrow> store \<Rightarrow> (exn + 'a) \<times> store" where
  "get_connection self body st =
     (if \<not> available st
      then (Inl (DatabaseError (''Database operation failed: '' @ ''unable to open database file'')), st)
      else
        let st = st\<lparr>open_connections := open_connections st + 1\<rparr>;
            conn = \<lparr>working = committed st, sent = sql_log st\<rparr>
        in case body conn of
             (Inr x, conn') \<Rightarrow>
               (Inr x, st\<lparr>committed := working conn', sql_log := sent conn',
                          open_connections := open_connections st - 1\<rparr>)
           | (Inl (Sqlite3Error m), conn') \<Rightarrow>
               (Inl (DatabaseError (''Database operation failed: '' @ m)),
                st\<lparr>sql_log := sent conn', open_connections := open_connections st - 1\<rparr>)
           | (Inl e, conn') \<Rightarrow>
               (Inl e, st\<lparr>sql_log := sent conn', open_connections := open_connections st - 1\<rparr>))"

text \<open>
  The handler \<^verbatim>\<open>except sqlite3.Error as e: raise DatabaseError(f"{what}: {e}")\<close> that
  every operation puts around its \<^verbatim>\<open>with\<close> block.
\<close>

definition reraise :: "string \<Rightarrow> (exn + 'a) \<times> store \<Rightarrow> (exn + 'a) \<times> store" where
  "reraise what r =
     (case r of
        (Inl (Sqlite3Error m), st) \<Rightarrow> (Inl (DatabaseError (what @ '': '' @ m)), st)
      | _ \<Rightarrow> r)"

subsection \<open>\<^verbatim>\<open>create_table\<close>\<close>

definition map_type_to_sqlite :: "string \<Rightarrow> string" where
  "map_type_to_sqlite python_type =
     (case map_of [(''int'', ''INTEGER''), (''float'', ''REAL''), (''str'', ''TEXT''), (''date'', ''TEXT'')]
             python_type of
        Some t \<Rightarrow> t
      | None \<Rightarrow> ''TEXT'')"

definition col_defs :: "schema \<Rightarrow> col_def list" where
  "col_defs sch =
     map (\<lambda>col.
            let col_type = map_type_to_sqlite (case types sch col of Some t \<Rightarrow> t | None \<Rightarrow> ''str'') in
            if col = primary_key sch then
              (if primary_key sch = ''id''
               then \<lparr>cname = col, ctype = ''INTEGER'', cconstraint = PrimaryKeyAutoincrement\<rparr>
               else \<lparr>cname = col, ctype = col_type, cconstraint = PrimaryKey\<rparr>)
            else \<lparr>cname = col, ctype = col_type, cconstraint = NoConstraint\<rparr>)
         (columns sch)"

definition create_table :: "database_manager \<Rightarrow> schema \<Rightarrow> store \<Rightarrow> (exn + unit) \<times> store" where
  "create_table self sch st =
     (let create_sql = CreateTableIfNotExists (table_name self) (col_defs sch) in
      reraise ''Failed to create table''
        (get_connection self
           (\<lambda>conn. case execute create_sql [] conn of
                      (Inl e, conn') \<Rightarrow> (Inl e, conn')
                    | (Inr cur, conn') \<Rightarrow> (Inr (), conn'))
           st))"

subsection \<open>\<^verbatim>\<open>insert_data\<close>\<close>

text \<open>
  What the loop appends to \<^verbatim>\<open>values\<close> for a cell: \<^verbatim>\<open>None\<close> for a missing value, the
  \<^verbatim>\<open>isoformat()\<close> text for a timestamp, the value itself otherwise, as the driver
  binds it (a \<^verbatim>\<open>bool\<close> is bound as the integer it is). The values of a row are taken
  to be the Python scalars of the cells, which is what \<^verbatim>\<open>iterrows\<close> yields for a frame
  whose columns do not share one numeric dtype.
\<close>

fun to_sql :: "cell \<Rightarrow> sqlval" where
  "to_sql None = Null"
| "to_sql (Some (TimestampV t)) = SText t"
| "to_sql (Some (IntV i)) = SInt i"
| "to_sql (Some (FloatV r)) = SReal r"
| "to_sql (Some (BoolV b)) = SInt (if b then 1 else 0)"
| "to_sql (Some (StrV s)) = SText s"

text \<open>
  The inner loop over \<^verbatim>\<open>insert_columns\<close> for the row at position \<open>i\<close>. Every column
  of a frame is as long as its index, so \<open>i\<close> is in range. \<^verbatim>\<open>row[col]\<close> under a
  label that several columns carry is a Series, and \<^verbatim>\<open>if pd.isna(val)\<close> raises
  \<^verbatim>\<open>ValueError\<close> as in \<^const>\<open>get_column\<close>.
\<close>

fun row_tuple :: "dataframe \<Rightarrow> nat \<Rightarrow> string list \<Rightarrow> exn + sqlval list" where
  "row_tuple df i [] = Inr []"
| "row_tuple df i (col # rest) =
     (case get_column df col of
        Inl e \<Rightarrow> Inl e
      | Inr s \<Rightarrow>
          (case row_tuple df i rest of
             Inl e \<Rightarrow> Inl e
           | Inr vals \<Rightarrow> Inr (to_sql (cells s ! i) # vals)))"

text \<open>The outer loop over \<^verbatim>\<open>df.iterrows()\<close>.\<close>

fun data_to_insert :: "dataframe \<Rightarrow> nat list \<Rightarrow> string list \<Rightarrow> exn + sqlval list list" where
  "data_to_insert df [] cols = Inr []"
| "data_to_insert df (i # rest) cols =
     (case row_tuple df i cols of
        Inl e \<Rightarrow> Inl e
      | Inr vals \<Rightarrow>
          (case data_to_insert df rest cols of
             Inl e \<Rightarrow> Inl e
           | Inr rows \<Rightarrow> Inr (vals # rows)))"

definition insert_columns :: "dataframe \<Rightarrow> schema \<Rightarrow> string list" where
  "insert_columns df sch =
     (let labels = map fst (df_columns df) in
      if primary_key sch = ''id'' \<and> ''id'' \<notin> set labels
      then filter (\<lambda>col. col \<noteq> ''id'') labels
      else labels)"

definition insert_data :: "database_manager \<Rightarrow> dataframe \<Rightarrow> schema \<Rightarrow> store \<Rightarrow> (exn + unit) \<times> store" where
  "insert_data self df sch st =
     (let cols = insert_columns df sch;
          insert_sql = InsertInto (table_name self) cols
      in reraise ''Failed to insert data''
           (get_connection self
              (\<lambda>conn. case data_to_insert df [0..<nrows df] cols of
                         Inl e \<Rightarrow> (Inl e, conn)
                       | Inr rows \<Rightarrow> executemany insert_sql rows conn)
              st))"

subsection \<open>\<^verbatim>\<open>create_record\<close>\<close>

text \<open>
  A record is a dictionary from column names to values that the driver binds as they
  are: its items in insertion order, with distinct keys.
\<close>

type_synonym record_data = "(string \<times> sqlval) list"

definition create_record :: "database_manager \<Rightarrow> record_data \<Rightarrow> store \<Rightarrow> (exn + int option) \<times> store" where
  "create_record self data st =
     (let cols = map fst data;
          insert_sql = InsertInto (table_name self) cols
      in reraise ''Failed to create record''
           (get_connection self
              (\<lambda>conn. let vals = map snd data in
                       case execute insert_sql vals conn of
                         (Inl e, conn') \<Rightarrow> (Inl e, conn')
                       | (Inr cur, conn') \<Rightarrow> (Inr (lastrowid cur), conn'))
              st))"

subsection \<open>\<^verbatim>\<open>read_all\<close>\<close>

text \<open>
  The frame that \<^verbatim>\<open>pd.read_sql_query\<close> builds is represented by what it is built from:
  the column names and the rows of the cursor. When the statement fails, pandas catches
  the exception whatever it is, rolls the connection back (nothing was changed in it) and
  raises its own \<^verbatim>\<open>pandas.errors.DatabaseError\<close> with the text of the statement and
  of the failure.
\<close>

record result_frame =
  rf_columns :: "string list"
  rf_rows :: "sqlval list list"

definition read_sql_query :: "string \<Rightarrow> connection \<Rightarrow> (exn + result_frame) \<times> connection" where
  "read_sql_query t conn =
     (case execute (SelectAll t) [] conn of
        (Inl e, conn') \<Rightarrow>
          (Inl (PandasDatabaseError
                  (''Execution failed on sql '' @ [CHR 0x27] @ ''SELECT * FROM '' @ t @ [CHR 0x27]
                   @ '': '' @ exn_str e)), conn')
      | (Inr cur, conn') \<Rightarrow>
          (Inr \<lparr>rf_columns = description cur, rf_rows = fetchall cur\<rparr>, conn'))"

definition read_all :: "database_manager \<Rightarrow> store \<Rightarrow> (exn + result_frame) \<times> store" where
  "read_all self st =
     reraise ''Failed to read records''
       (get_connection self (\<lambda>conn. read_sql_query (table_name self) conn) st)"

subsection \<open>\<^verbatim>\<open>update_record\<close>\<close>

text \<open>\<^verbatim>\<open>"id" if "id" in data else list(data.keys())[0]\<close>\<close>

definition resolve_primary_key :: "record_data \<Rightarrow> exn + string" where
  "resolve_primary_key data =
     (if ''id'' \<in> set (map fst data) then Inr ''id''
      else case map fst data of
        [] \<Rightarrow> Inl (IndexError ''list index out of range'')
      | k # _ \<Rightarrow> Inr k)"

definition update_record :: "database_manager \<Rightarrow> sqlval \<Rightarrow> record_data \<Rightarrow> store \<Rightarrow> (exn + unit) \<times> store" where
  "update_record self record_id data st =
     (case resolve_primary_key data of
        Inl e \<Rightarrow> (Inl e, st)
      | Inr pk \<Rightarrow>
          let set_clauses = filter (\<lambda>col. col \<noteq> pk) (map fst data) in
          if set_clauses = [] then (Inr (), st)
          else
            let update_sql = UpdateWhere (table_name self) set_clauses pk in
            reraise ''Failed to update record''
              (get_connection self
                 (\<lambda>conn. let vals = map snd (filter (\<lambda>(col, v). col \<noteq> pk) data) @ [record_id] in
                          case execute update_sql vals conn of
                            (Inl e, conn') \<Rightarrow> (Inl e, conn')
                          | (Inr cur, conn') \<Rightarrow> (Inr (), conn'))
                 st))"

subsection \<open>\<^verbatim>\<open>delete_record\<close>\<close>

text \<open>
  The name in a row of \<^verbatim>\<open>table_info\<close>, interpolated into the second statement; the
  engine always puts a text there.
\<close>

fun text_of :: "sqlval \<Rightarrow> string" where
  "text_of (SText s) = s"
| "text_of v = []"

definition delete_body :: "string \<Rightarrow> sqlval \<Rightarrow> connection \<Rightarrow> (exn + unit) \<times> connection" where
  "delete_body t record_id conn =
     (case execute (DeleteWhere t ''id'') [record_id] conn of
        (Inl e, conn1) \<Rightarrow> (Inl e, conn1)
      | (Inr cur, conn1) \<Rightarrow>
          if rowcount cur = 0 then
            (case execute (PragmaTableInfo t) [] conn1 of
               (Inl e, conn2) \<Rightarrow> (Inl e, conn2)
             | (Inr cur2, conn2) \<Rightarrow>
                 let table_info = fetchall cur2 in
                 if table_info \<noteq> [] then
                   let pk_col = (case find (\<lambda>row. row ! 5 = SInt 1) table_info of
                                   Some row \<Rightarrow> row ! 1
                                 | None \<Rightarrow> hd table_info ! 1)
                   in case execute (DeleteWhere t (text_of pk_col)) [record_id] conn2 of
                        (Inl e, conn3) \<Rightarrow> (Inl e, conn3)
                      | (Inr cur3, conn3) \<Rightarrow> (Inr (), conn3)
                 else (Inr (), conn2))
          else (Inr (), conn1))"

definition delete_record :: "database_manager \<Rightarrow> sqlval \<Rightarrow> store \<Rightarrow> (exn + unit) \<times> store" where
  "delete_record self record_id st =
     reraise ''Failed to delete record''
       (get_connection self (delete_body (table_name self) record_id) st)"

subsection \<open>Failures\<close>

text \<open>
  What \<^const>\<open>get_connection\<close> raises for an exception of its block, and the blocks that
  can fail in the engine only.
\<close>

definition wrapped :: "exn \<Rightarrow> exn" where
  "wrapped e =
     (case e of
        Sqlite3Error m \<Rightarrow> DatabaseError (''Database operation failed: '' @ m)
      | _ \<Rightarrow> e)"

definition engine_only :: "(connection \<Rightarrow> (exn + 'a) \<times> connection) \<Rightarrow> bool" where
  "engine_only body =
     (\<forall>conn e conn'. body conn = (Inl e, conn') \<longrightarrow> (\<exists>m. e = Sqlite3Error m))"

section \<open>Example data\<close>

text \<open>
  The manager that the constructor's defaults give, a database file with no table, and a
  date parser that accepts nothing.
\<close>

definition default_manager :: database_manager where
  "default_manager = \<lparr>db_path = ''data.db'', table_name = ''data''\<rparr>"

definition empty_store :: store where
  "empty_store = \<lparr>committed = [], available = True, open_connections = 0, sql_log = []\<rparr>"

definition never_dates :: "series \<Rightarrow> bool" where
  "never_dates s = False"

text \<open>A column of floats that are all whole, and a column of integers.\<close>

definition whole_floats :: series where
  "whole_floats = \<lparr>dtype = Float64, cells = [Some (FloatV 1), Some (FloatV 2)]\<rparr>"

definition some_ints :: series where
  "some_ints = \<lparr>dtype = Int64, cells = [Some (IntV 25), Some (IntV 30)]\<rparr>"

text \<open>
  A sheet whose first column repeats a value and whose second does not; a sheet with
  the headers \<^verbatim>\<open>a b\<close> and \<^verbatim>\<open>a_b\<close>, which both clean to \<^verbatim>\<open>a_b\<close>.
\<close>

definition shop_frame :: dataframe where
  "shop_frame =
     \<lparr>nrows = 3,
      df_columns =
        [(''category'', \<lparr>dtype = Object, cells = [Some (StrV ''A''), Some (StrV ''A''), Some (StrV ''B'')]\<rparr>),
         (''code'', \<lparr>dtype = Int64, cells = [Some (IntV 1), Some (IntV 2), Some (IntV 3)]\<rparr>)]\<rparr>"

definition clash_frame :: dataframe where
  "clash_frame =
     \<lparr>nrows = 1,
      df_columns =
        [(''a b'', \<lparr>dtype = Int64, cells = [Some (IntV 1)]\<rparr>),
         (''a_b'', \<lparr>dtype = Int64, cells = [Some (IntV 2)]\<rparr>)]\<rparr>"

text \<open>
  A sheet with a column named \<^verbatim>\<open>id\<close> that repeats a value, and no column without
  repetition.
\<close>

definition orders_frame :: dataframe where
  "orders_frame =
     \<lparr>nrows = 3,
      df_columns =
        [(''id'', \<lparr>dtype = Int64, cells = [Some (IntV 1), Some (IntV 1), Some (IntV 2)]\<rparr>),
         (''category'', \<lparr>dtype = Object, cells = [Some (StrV ''A''), Some (StrV ''B''), Some (StrV ''B'')]\<rparr>)]\<rparr>"

text \<open>A schema whose primary key is the column \<^verbatim>\<open>code\<close>, and a record for it.\<close>

definition people_schema :: schema where
  "people_schema =
     \<lparr>columns = [''code'', ''name''],
      types = [''code'' \<mapsto> ''int'', ''name'' \<mapsto> ''str''],
      primary_key = ''code''\<rparr>"

definition alice :: record_data where
  "alice = [(''code'', SInt 1), (''name'', SText ''Alice'')]"

text \<open>
  A schema with a column named \<^verbatim>\<open>id\<close> that is not its primary key, and a record.
\<close>

definition badge_schema :: schema where
  "badge_schema =
     \<lparr>columns = [''code'', ''id''],
      types = [''code'' \<mapsto> ''int'', ''id'' \<mapsto> ''int''],
      primary_key = ''code''\<rparr>"

definition badge :: record_data where
  "badge = [(''code'', SInt 1), (''id'', SInt 7)]"

section \<open>Schema detection: results\<close>

subsection \<open>\<^const>\<open>clean_column_name\<close>\<close>

lemma ident_char_not_space: "ident_char c \<Longrightarrow> \<not> isspace c"
  by (auto simp: ident_char_def isspace_def isalnum_def Let_def)

lemma ident_char_not_blank: "ident_char c \<Longrightarrow> c \<noteq> CHR '' ''"
  by (auto simp: ident_char_def isalnum_def Let_def)

lemma strip_ident:
  assumes "list_all ident_char s"
  shows "strip s = s"
proof (cases s rule: rev_cases)
  case Nil
  then show ?thesis by (simp add: strip_def)
next
  case (snoc ys y)
  have ne: "s \<noteq> []" using snoc by simp
  have "\<not> isspace (hd s)"
    using assms ne ident_char_not_space by (cases s) auto
  then have front: "dropWhile isspace s = s"
    using ne by (cases s) auto
  have "\<not> isspace y"
    using assms snoc ident_char_not_space by auto
  then have "dropWhile isspace (rev s) = rev s"
    using snoc by simp
  with front show ?thesis by (simp add: strip_def)
qed

lemma replace_spaces_ident: "list_all ident_char s \<Longrightarrow> replace_spaces s = s"
  unfolding replace_spaces_def by (induction s) (auto dest: ident_char_not_blank)

lemma underscore_map_ident:
  "list_all ident_char s \<Longrightarrow>
     map (\<lambda>c. if isalnum c \<or> c = CHR ''_'' then c else CHR ''_'') s = s"
  by (induction s) (auto simp: ident_char_def)

lemma clean_column_name_fixes_identifiers:
  "valid_identifier s \<Longrightarrow> clean_column_name s = s"
  by (simp add: clean_column_name_def valid_identifier_def strip_ident replace_spaces_ident
      underscore_map_ident)

lemma clean_column_name_valid: "valid_identifier (clean_column_name s)"
  by (auto simp: clean_column_name_def valid_identifier_def Let_def ident_char_def isalnum_def
      isdigit_def list_all_iff)

text \<open>
  Claim C4. The sanitizer is a total function on strings (it has no failing branch: the
  only indexing, \<^verbatim>\<open>cleaned[0]\<close>, is guarded by \<^verbatim>\<open>cleaned and\<close>), it is idempotent
  on every string, and it maps \<^verbatim>\<open>123abc\<close> to \<^verbatim>\<open>col_123abc\<close>, the empty string to
  \<^verbatim>\<open>Column_A\<close> and \<^verbatim>\<open>A B@C\<close> to \<^verbatim>\<open>A_B_C\<close>.
\<close>

theorem clean_column_name_idempotent:
  "clean_column_name (clean_column_name x) = clean_column_name x \<and>
   clean_column_name ''123abc'' = ''col_123abc'' \<and>
   clean_column_name [] = ''Column_A'' \<and>
   clean_column_name ''A B@C'' = ''A_B_C''"
proof -
  have "clean_column_name (clean_column_name x) = clean_column_name x"
    by (rule clean_column_name_fixes_identifiers [OF clean_column_name_valid])
  moreover have "clean_column_name ''123abc'' = ''col_123abc''"
    by (simp add: clean_column_name_def strip_def replace_spaces_def isspace_def isdigit_def
        isalnum_def)
  moreover have "clean_column_name [] = ''Column_A''"
    by (simp add: clean_column_name_def strip_def replace_spaces_def)
  moreover have "clean_column_name ''A B@C'' = ''A_B_C''"
    by (simp add: clean_column_name_def strip_def replace_spaces_def isspace_def isdigit_def
        isalnum_def)
  ultimately show ?thesis by simp
qed

subsection \<open>\<^const>\<open>infer_type\<close>\<close>

lemma cell_fits_Int64: "cell_fits Int64 c \<Longrightarrow> \<exists>i. c = Some (IntV i)"
  by (cases "(Int64, c)" rule: cell_fits.cases) auto

lemma int_cells_whole:
  "list_all (cell_fits Int64) cs \<Longrightarrow> list_all whole (List.map_filter id cs)"
  by (induction cs) (auto simp: List.map_filter_def dest: cell_fits_Int64)

lemma infer_type_numeric:
  assumes "dtype s = Int64 \<or> dtype s = Float64" and "\<not> isna_all s"
  shows "infer_type to_datetime s = (if dtype s = Int64 then ''int'' else ''float'')"
proof -
  have "cells (dropna s) \<noteq> []"
    using assms(2) by (auto simp: isna_all_def dropna_def list_all_iff filter_empty_conv)
  moreover have "dtype (dropna s) = dtype s"
    by (simp add: dropna_def)
  ultimately show ?thesis
    using assms
    by (auto simp: infer_type_def is_datetime64_any_dtype_def is_integer_dtype_def
        is_float_dtype_def Let_def)
qed

text \<open>
  Against claim C1 as stated: a column of the floats 1.0 and 2.0 is a non-empty numeric
  column whose values all have zero fractional part, and its type is \<^verbatim>\<open>float\<close>, not
  \<^verbatim>\<open>int\<close>.
\<close>

theorem whole_floats_classified_float:
  "wf_series whole_floats \<and> dtype whole_floats = Float64 \<and> \<not> isna_all whole_floats \<and>
   list_all whole (present whole_floats) \<and>
   infer_type never_dates whole_floats = ''float''"
  by (simp add: whole_floats_def wf_series_def isna_all_def present_def List.map_filter_def
      infer_type_def is_datetime64_any_dtype_def is_integer_dtype_def is_float_dtype_def
      dropna_def)

text \<open>
  Claim C1, amended. The type of a non-empty numeric column follows its dtype:
  \<^verbatim>\<open>int\<close> exactly for an integer dtype, \<^verbatim>\<open>float\<close> exactly for a floating-point one.
  A column typed \<^verbatim>\<open>int\<close> has only values with zero fractional part; the converse is
  what fails.
\<close>

theorem infer_type_follows_dtype:
  assumes "wf_series s" and "dtype s = Int64 \<or> dtype s = Float64" and "\<not> isna_all s"
  shows "(infer_type to_datetime s = ''int'' \<longleftrightarrow> dtype s = Int64) \<and>
         (infer_type to_datetime s = ''float'' \<longleftrightarrow> dtype s = Float64) \<and>
         (infer_type to_datetime s = ''int'' \<longrightarrow> list_all whole (present s))"
proof -
  have t: "infer_type to_datetime s = (if dtype s = Int64 then ''int'' else ''float'')"
    using assms(2,3) by (rule infer_type_numeric)
  have "dtype s = Int64 \<Longrightarrow> list_all whole (present s)"
    using assms(1) by (simp add: wf_series_def present_def int_cells_whole)
  then show ?thesis using t assms(2) by auto
qed

theorem infer_type_follows_dtype_witness:
  "wf_series some_ints \<and> dtype some_ints = Int64 \<and> \<not> isna_all some_ints \<and>
   infer_type never_dates some_ints = ''int'' \<and> list_all whole (present some_ints)"
proof -
  have w: "wf_series some_ints" by (simp add: some_ints_def wf_series_def)
  have d: "dtype some_ints = Int64 \<or> dtype some_ints = Float64" by (simp add: some_ints_def)
  have n: "\<not> isna_all some_ints" by (simp add: some_ints_def isna_all_def)
  show ?thesis
    using infer_type_follows_dtype [OF w d n, of never_dates] w n by (simp add: some_ints_def)
qed

subsection \<open>\<^const>\<open>detect_primary_key\<close>\<close>

lemma length_dropna: "length (cells (dropna s)) = length (present s)"
  by (simp add: dropna_def present_def List.map_filter_def)

lemma notna_any_present: "notna_any s = (present s \<noteq> [])"
  by (auto simp: notna_any_def present_def List.map_filter_def list_ex_iff filter_empty_conv)

text \<open>The test of the code is the property of the specification.\<close>

lemma unique_column_iff: "unique_column s = all_distinct s"
proof -
  have "(nunique s = length (present s)) = distinct (map key_of (present s))"
    unfolding nunique_def by (metis length_map length_remdups_eq remdups_id_iff_distinct)
  then show ?thesis
    by (auto simp: unique_column_def all_distinct_def Let_def length_dropna notna_any_present)
qed

lemma find_skip: "\<not> P f \<Longrightarrow> find (\<lambda>c. c \<noteq> f \<and> P c) cs = find P cs"
  by (induction cs) auto

lemma find_default_cases:
  "(case find P xs of None \<Rightarrow> d | Some c \<Rightarrow> c) = d \<or>
   (case find P xs of None \<Rightarrow> d | Some c \<Rightarrow> c) \<in> set xs"
  by (induction xs) auto

lemma pk_loop_find:
  assumes "\<forall>c\<in>set cs. \<exists>s. get_column df c = Inr s"
  shows "pk_loop df f cs =
    Inr (case find (\<lambda>c. c \<noteq> f \<and> qualifies df c) cs of None \<Rightarrow> ''id'' | Some c \<Rightarrow> c)"
  using assms
proof (induction cs)
  case Nil
  then show ?case by simp
next
  case (Cons c cs)
  then obtain s where s: "get_column df c = Inr s" by auto
  from Cons have "pk_loop df f cs =
    Inr (case find (\<lambda>c. c \<noteq> f \<and> qualifies df c) cs of None \<Rightarrow> ''id'' | Some c \<Rightarrow> c)"
    by simp
  with s show ?case by (simp add: qualifies_def unique_column_iff)
qed

lemma detect_primary_key_find:
  assumes "\<forall>c\<in>set cols. \<exists>s. get_column df c = Inr s"
  shows "detect_primary_key df cols =
    Inr (case find (qualifies df) cols of None \<Rightarrow> ''id'' | Some c \<Rightarrow> c)"
proof (cases cols)
  case Nil
  then show ?thesis by (simp add: detect_primary_key_def)
next
  case (Cons f rest)
  then obtain s where s: "get_column df f = Inr s" using assms by auto
  show ?thesis
  proof (cases "qualifies df f")
    case True
    then show ?thesis
      using s Cons by (simp add: detect_primary_key_def qualifies_def unique_column_iff)
  next
    case False
    have "detect_primary_key df cols = pk_loop df f cols"
      using s Cons False by (simp add: detect_primary_key_def qualifies_def unique_column_iff)
    also have "\<dots> =
      Inr (case find (\<lambda>c. c \<noteq> f \<and> qualifies df c) cols of None \<Rightarrow> ''id'' | Some c \<Rightarrow> c)"
      by (rule pk_loop_find [OF assms])
    finally show ?thesis using False by (simp add: find_skip)
  qed
qed

text \<open>
  Against claim C3 as stated, which speaks of every dataset and every column list: the
  name \<^verbatim>\<open>zzz\<close> labels no column of the sheet, so no listed column has pairwise distinct
  values, and the selector does not return \<^verbatim>\<open>id\<close>; \<^verbatim>\<open>df[first_col]\<close> raises
  \<^verbatim>\<open>KeyError\<close>.
\<close>

theorem detect_primary_key_absent_column:
  "find (qualifies shop_frame) [''zzz''] = None \<and>
   detect_primary_key shop_frame [''zzz''] = Inl (KeyError ''zzz'')"
  by code_simp

text \<open>
  Claim C3, amended. For a dataset and a list of its columns, each listed name labelling
  exactly one column of the dataset, the selector returns the first listed column whose
  non-missing values are pairwise distinct and at least one in number, and \<^verbatim>\<open>id\<close>
  when no listed column is such, the empty list included.
\<close>

theorem detect_primary_key_first_unique:
  assumes "\<forall>c\<in>set cols. \<exists>s. get_column df c = Inr s"
  shows "detect_primary_key df cols =
    Inr (case find (qualifies df) cols of None \<Rightarrow> ''id'' | Some c \<Rightarrow> c)"
  using assms by (rule detect_primary_key_find)

theorem detect_primary_key_first_unique_witness:
  "\<not> qualifies shop_frame ''category'' \<and> qualifies shop_frame ''code'' \<and>
   detect_primary_key shop_frame [''category'', ''code''] = Inr ''code'' \<and>
   detect_primary_key shop_frame [] = Inr ''id''"
proof -
  have h: "\<forall>c\<in>set [''category'', ''code'']. \<exists>s. get_column shop_frame c = Inr s"
    by (simp add: get_column_def shop_frame_def)
  have q: "\<not> qualifies shop_frame ''category''" "qualifies shop_frame ''code''"
    by (simp_all add: qualifies_def get_column_def shop_frame_def all_distinct_def present_def
        List.map_filter_def)
  show ?thesis
    using detect_primary_key_first_unique [OF h]
      detect_primary_key_first_unique [of "[]" shop_frame] q
    by simp
qed

subsection \<open>\<^const>\<open>detect_schema\<close>\<close>

lemma filter_label_distinct:
  "distinct (map fst xs) \<Longrightarrow> (l, s) \<in> set xs \<Longrightarrow> filter (\<lambda>(l', s'). l' = l) xs = [(l, s)]"
proof (induction xs)
  case Nil
  then show ?case by simp
next
  case (Cons x xs)
  obtain l' s' where x: "x = (l', s')" by (cases x)
  show ?case
  proof (cases "l' = l")
    case True
    then have out: "l \<notin> fst ` set xs" using Cons.prems(1) x by simp
    then have "filter (\<lambda>(l', s'). l' = l) xs = []"
      by (auto simp: filter_empty_conv intro: rev_image_eqI)
    moreover have "s' = s"
      using Cons.prems x True out by (auto intro: rev_image_eqI)
    ultimately show ?thesis using x True by simp
  next
    case False
    then show ?thesis using Cons x by auto
  qed
qed

lemma get_column_distinct:
  assumes "distinct (map fst (df_columns df))" and "c \<in> fst ` set (df_columns df)"
  shows "\<exists>s. get_column df c = Inr s"
proof -
  from assms(2) obtain s where "(c, s) \<in> set (df_columns df)" by auto
  then have "filter (\<lambda>(l', s'). l' = c) (df_columns df) = [(c, s)]"
    by (rule filter_label_distinct [OF assms(1)])
  then show ?thesis by (simp add: get_column_def)
qed

lemma filter_label_twice:
  "\<not> distinct (map fst xs) \<Longrightarrow> \<exists>c\<in>fst ` set xs. 2 \<le> length (filter (\<lambda>(l, s). l = c) xs)"
proof (induction xs)
  case Nil
  then show ?case by simp
next
  case (Cons x xs)
  obtain l s where x: "x = (l, s)" by (cases x)
  show ?case
  proof (cases "l \<in> fst ` set xs")
    case True
    then obtain s' where "(l, s') \<in> set xs" by auto
    then have "filter (\<lambda>(l', s). l' = l) xs \<noteq> []"
      by (auto simp: filter_empty_conv)
    then have "1 \<le> length (filter (\<lambda>(l', s). l' = l) xs)"
      by (cases "filter (\<lambda>(l', s). l' = l) xs") auto
    then show ?thesis using x by auto
  next
    case False
    then have "\<not> distinct (map fst xs)" using Cons.prems x by simp
    then obtain c where c: "c \<in> fst ` set xs" "2 \<le> length (filter (\<lambda>(l, s). l = c) xs)"
      using Cons.IH by blast
    have "length (filter (\<lambda>(l, s). l = c) xs) \<le> length (filter (\<lambda>(l, s). l = c) (x # xs))"
      by simp
    then show ?thesis using c by (intro bexI [of _ c]) auto
  qed
qed

lemma get_column_twice:
  "2 \<le> length (filter (\<lambda>(l, s). l = c) (df_columns df)) \<Longrightarrow>
     get_column df c = Inl (ValueError ambiguous)"
  by (auto simp: get_column_def split: list.splits)

lemma infer_loop_dom:
  assumes "\<forall>c\<in>set cs. \<exists>s. get_column df c = Inr s"
  shows "\<exists>tys'. infer_loop to_datetime df cs tys = Inr tys' \<and> dom tys' = dom tys \<union> set cs"
  using assms
proof (induction cs arbitrary: tys)
  case Nil
  then show ?case by simp
next
  case (Cons c cs)
  then obtain s where s: "get_column df c = Inr s" by auto
  from Cons obtain tys' where
    "infer_loop to_datetime df cs (tys(c \<mapsto> infer_type to_datetime s)) = Inr tys'"
    "dom tys' = dom (tys(c \<mapsto> infer_type to_datetime s)) \<union> set cs"
    by (metis list.set_intros(2))
  then show ?case using s by auto
qed

lemma infer_loop_fails:
  "c \<in> set cs \<Longrightarrow> get_column df c = Inl e \<Longrightarrow> \<exists>e'. infer_loop to_datetime df cs tys = Inl e'"
proof (induction cs arbitrary: tys)
  case Nil
  then show ?case by simp
next
  case (Cons a cs)
  show ?case
  proof (cases "get_column df a")
    case (Inl e1)
    then show ?thesis by simp
  next
    case (Inr s)
    then have "c \<in> set cs" using Cons.prems by auto
    then show ?thesis using Cons.IH Cons.prems(2) Inr by simp
  qed
qed

lemma length_cleaned_labels: "length (cleaned_labels df) = length (df_columns df)"
  by (simp add: cleaned_labels_def header_labels_def)

lemma labels_set_columns:
  "length ls = length (df_columns df) \<Longrightarrow> map fst (df_columns (set_columns df ls)) = ls"
  by (simp add: set_columns_def)

lemma detect_schema_try_empty:
  "df_empty df \<Longrightarrow>
     detect_schema_try to_datetime df = Inl (SchemaDetectionError ''Excel file contains no data'')"
  by (simp add: detect_schema_try_def)

lemma detect_schema_try_clash:
  assumes "\<not> distinct (cleaned_labels df)"
  shows "\<exists>e. detect_schema_try to_datetime df = Inl e"
proof (cases "df_empty df")
  case True
  then show ?thesis by (simp add: detect_schema_try_empty)
next
  case False
  let ?cols = "cleaned_labels df"
  let ?df = "set_columns df ?cols"
  have labels: "map fst (df_columns ?df) = ?cols"
    by (rule labels_set_columns) (rule length_cleaned_labels)
  then have "\<not> distinct (map fst (df_columns ?df))" using assms by simp
  then obtain c where c: "c \<in> fst ` set (df_columns ?df)"
    "2 \<le> length (filter (\<lambda>(l, s). l = c) (df_columns ?df))"
    using filter_label_twice by blast
  have "c \<in> set (map fst (df_columns ?df))" using c(1) by simp
  moreover have "get_column ?df c = Inl (ValueError ambiguous)"
    using c(2) by (rule get_column_twice)
  ultimately obtain e where "infer_column_types to_datetime ?df = Inl e"
    unfolding infer_column_types_def using infer_loop_fails by blast
  moreover have "df_columns df \<noteq> []" using False by (simp add: df_empty_def)
  ultimately show ?thesis using False by (simp add: detect_schema_try_def Let_def)
qed

lemma detect_schema_try_ok:
  assumes d: "distinct (cleaned_labels df)" and ne: "\<not> df_empty df"
  shows "\<exists>sch. detect_schema_try to_datetime df = Inr sch \<and> columns sch = cleaned_labels df \<and>
           set (columns sch) \<subseteq> dom (types sch) \<and>
           (primary_key sch = ''id'' \<or> primary_key sch \<in> set (columns sch))"
proof -
  let ?cols = "cleaned_labels df"
  let ?df = "set_columns df ?cols"
  have labels: "map fst (df_columns ?df) = ?cols"
    by (rule labels_set_columns) (rule length_cleaned_labels)
  have all: "\<forall>c\<in>set ?cols. \<exists>s. get_column ?df c = Inr s"
  proof
    fix c assume "c \<in> set ?cols"
    then have "c \<in> fst ` set (df_columns ?df)" using labels by (metis set_map)
    moreover have "distinct (map fst (df_columns ?df))" using labels d by simp
    ultimately show "\<exists>s. get_column ?df c = Inr s" by (rule get_column_distinct [rotated])
  qed
  obtain tys where tys: "infer_column_types to_datetime ?df = Inr tys" "dom tys = set ?cols"
    using infer_loop_dom [OF all, of to_datetime Map.empty] labels
    by (auto simp: infer_column_types_def)
  let ?pk = "case find (qualifies ?df) ?cols of None \<Rightarrow> ''id'' | Some c \<Rightarrow> c"
  have pk: "detect_primary_key ?df ?cols = Inr ?pk"
    by (rule detect_primary_key_find [OF all])
  have "?pk = ''id'' \<or> ?pk \<in> set ?cols" by (rule find_default_cases)
  moreover have "df_columns df \<noteq> []" using ne by (simp add: df_empty_def)
  ultimately show ?thesis using ne tys pk
    by (simp add: detect_schema_try_def Let_def)
qed

text \<open>
  When schema detection raises and what it returns otherwise, for a sheet whose column
  labels are strings (a label that is a number has no \<^verbatim>\<open>startswith\<close>, which is
  outside this model). It raises
  \<^verbatim>\<open>SchemaDetectionError\<close> if and only if the dataset has no rows, or no columns, or two
  of its cleaned column labels are equal. Otherwise it returns a schema whose columns are
  the cleaned labels, each of them a key of \<^verbatim>\<open>types\<close>, and whose primary key is
  \<^verbatim>\<open>id\<close> or one of the columns.
\<close>

lemma detect_schema_raises_iff:
  "((\<exists>m. detect_schema to_datetime df = Inl (SchemaDetectionError m)) \<longleftrightarrow>
      nrows df = 0 \<or> df_columns df = [] \<or> \<not> distinct (cleaned_labels df)) \<and>
   (\<not> (nrows df = 0 \<or> df_columns df = [] \<or> \<not> distinct (cleaned_labels df)) \<longrightarrow>
      (\<exists>sch. detect_schema to_datetime df = Inr sch \<and> columns sch = cleaned_labels df \<and>
         set (columns sch) \<subseteq> dom (types sch) \<and>
         (primary_key sch = ''id'' \<or> primary_key sch \<in> set (columns sch))))"
proof (cases "df_empty df \<or> \<not> distinct (cleaned_labels df)")
  case True
  then have "\<exists>e. detect_schema_try to_datetime df = Inl e"
    using detect_schema_try_empty detect_schema_try_clash by blast
  then show ?thesis using True by (auto simp: detect_schema_def df_empty_def)
next
  case False
  then obtain sch where
    "detect_schema_try to_datetime df = Inr sch" "columns sch = cleaned_labels df"
    "set (columns sch) \<subseteq> dom (types sch)"
    "primary_key sch = ''id'' \<or> primary_key sch \<in> set (columns sch)"
    using detect_schema_try_ok [of df to_datetime] by blast
  then show ?thesis using False by (simp add: detect_schema_def df_empty_def)
qed

lemma detect_schema_shop_frame:
  "nrows shop_frame \<noteq> 0 \<and> df_columns shop_frame \<noteq> [] \<and> distinct (cleaned_labels shop_frame) \<and>
   (\<exists>sch. detect_schema never_dates shop_frame = Inr sch \<and>
      columns sch = [''category'', ''code''] \<and>
      set (columns sch) \<subseteq> dom (types sch) \<and>
      (primary_key sch = ''id'' \<or> primary_key sch \<in> set (columns sch)))"
proof -
  have l: "cleaned_labels shop_frame = [''category'', ''code'']" by code_simp
  have n: "nrows shop_frame \<noteq> 0 \<and> df_columns shop_frame \<noteq> []" by (simp add: shop_frame_def)
  show ?thesis
    using detect_schema_raises_iff [of never_dates shop_frame] l n by simp
qed

text \<open>
  Claim C5 says that schema detection raises if and only if the dataset has no rows or
  no columns, and returns a schema otherwise. It fails on the code: a sheet with one row
  and the two headers \<^verbatim>\<open>a b\<close> and \<^verbatim>\<open>a_b\<close> has rows and columns, both headers clean
  to \<^verbatim>\<open>a_b\<close>, and schema detection raises on it (the \<^verbatim>\<open>ValueError\<close> of the first
  \<^verbatim>\<open>if df[col]...\<close>, raised again as \<^verbatim>\<open>SchemaDetectionError\<close>).
\<close>

theorem detect_schema_raises_on_clash:
  "nrows clash_frame \<noteq> 0 \<and> df_columns clash_frame \<noteq> [] \<and>
   cleaned_labels clash_frame = [''a_b'', ''a_b''] \<and>
   detect_schema never_dates clash_frame =
     Inl (SchemaDetectionError (''Unexpected error during schema detection: '' @ ambiguous))"
proof -
  have "case detect_schema never_dates clash_frame of
          Inl e \<Rightarrow> e = SchemaDetectionError (''Unexpected error during schema detection: '' @ ambiguous)
        | Inr sch \<Rightarrow> False"
    by code_simp
  then have "detect_schema never_dates clash_frame =
     Inl (SchemaDetectionError (''Unexpected error during schema detection: '' @ ambiguous))"
    by (simp split: sum.splits)
  moreover have "cleaned_labels clash_frame = [''a_b'', ''a_b'']"
    by code_simp
  moreover have "nrows clash_frame \<noteq> 0 \<and> df_columns clash_frame \<noteq> []"
    by (simp add: clash_frame_def)
  ultimately show ?thesis by simp
qed

section \<open>The adapter: results\<close>

subsection \<open>The engine\<close>

lemma find_table_store: "find_table (store_table db t tb) t = Some tb"
  by (simp add: find_table_def store_table_def update_conv')

lemma exec_create_exists:
  "exec_create t defs db = Inr db' \<Longrightarrow> defs \<noteq> [] \<and> find_table db' t \<noteq> None"
  by (auto simp: exec_create_def find_table_store split: if_splits option.splits)

text \<open>Every failure of the engine is an \<^verbatim>\<open>sqlite3.Error\<close>.\<close>

lemma update_rows_error:
  "update_rows defs sets k key rows = Inl e \<Longrightarrow> e = datatype_mismatch"
  by (induction rows arbitrary: e)
     (auto simp: updated_row_def split: if_splits sum.splits option.splits sqlval.splits prod.splits)

lemma run_stmt_error: "run_stmt s params db = Inl e \<Longrightarrow> \<exists>m. e = Sqlite3Error m"
proof (cases s)
  case (CreateTableIfNotExists t defs)
  assume "run_stmt s params db = Inl e"
  then show ?thesis using CreateTableIfNotExists
    by (auto simp: run_stmt_def exec_create_def bindings_error_def syntax_error_def
        split: if_splits sum.splits option.splits)
next
  case (InsertInto t cols)
  assume "run_stmt s params db = Inl e"
  then show ?thesis using InsertInto
    by (auto simp: run_stmt_def exec_insert_def bindings_error_def syntax_error_def
        no_such_table_def unique_failed_def datatype_mismatch_def Let_def
        elim!: alias_rowid.elims
        split: if_splits sum.splits option.splits)
next
  case (SelectAll t)
  assume "run_stmt s params db = Inl e"
  then show ?thesis using SelectAll
    by (auto simp: run_stmt_def exec_select_def bindings_error_def no_such_table_def
        split: if_splits option.splits)
next
  case (UpdateWhere t set_cols c)
  assume "run_stmt s params db = Inl e"
  then show ?thesis using UpdateWhere
    by (auto simp: run_stmt_def exec_update_def bindings_error_def syntax_error_def
        no_such_table_def no_such_column_def unique_failed_def datatype_mismatch_def Let_def
        dest!: update_rows_error
        split: if_splits sum.splits option.splits prod.splits)
next
  case (DeleteWhere t c)
  assume "run_stmt s params db = Inl e"
  then show ?thesis using DeleteWhere
    by (auto simp: run_stmt_def exec_delete_def bindings_error_def no_such_table_def
        no_such_column_def Let_def
        split: if_splits option.splits list.splits)
next
  case (PragmaTableInfo t)
  assume "run_stmt s params db = Inl e"
  then show ?thesis using PragmaTableInfo
    by (auto simp: run_stmt_def exec_table_info_def bindings_error_def Let_def
        split: if_splits option.splits)
qed

lemma execute_error: "execute s params conn = (Inl e, conn') \<Longrightarrow> \<exists>m. e = Sqlite3Error m"
  by (auto simp: execute_def Let_def split: sum.splits prod.splits dest: run_stmt_error)

lemma executemany_error: "executemany s rows conn = (Inl e, conn') \<Longrightarrow> \<exists>m. e = Sqlite3Error m"
  by (induction rows arbitrary: conn) (auto split: prod.splits sum.splits dest: execute_error)

subsection \<open>\<^const>\<open>get_connection\<close>\<close>

lemma get_connection_Inr:
  "get_connection self body st = (Inr x, st') \<Longrightarrow>
     available st \<and>
     (\<exists>conn'. body \<lparr>working = committed st, sent = sql_log st\<rparr> = (Inr x, conn') \<and>
        st' = st\<lparr>committed := working conn', sql_log := sent conn'\<rparr>)"
  by (auto simp: get_connection_def Let_def split: if_splits prod.splits sum.splits exn.splits)

text \<open>
  A block that raises: nothing of it is committed, the connection is closed, and the
  exception that leaves is the one of the block, an \<^verbatim>\<open>sqlite3.Error\<close> turned into a
  \<^verbatim>\<open>DatabaseError\<close> with its message.
\<close>

lemma get_connection_failure:
  assumes "get_connection self body st = (Inl e, st')"
  shows "committed st' = committed st \<and> open_connections st' = open_connections st \<and>
     ((\<not> available st \<and>
       e = DatabaseError ''Database operation failed: unable to open database file'') \<or>
      (\<exists>conn' e'. body \<lparr>working = committed st, sent = sql_log st\<rparr> = (Inl e', conn') \<and>
         e = wrapped e'))"
  using assms
  by (auto simp: get_connection_def wrapped_def Let_def
      split: if_splits prod.splits sum.splits exn.splits)

lemma engine_failure_wrapped:
  assumes g: "get_connection self body st = (Inl e, st')" and b: "engine_only body"
  shows "committed st' = committed st \<and> open_connections st' = open_connections st \<and>
         (\<exists>m. e = DatabaseError (''Database operation failed: '' @ m))"
proof -
  from get_connection_failure [OF g]
  have u: "committed st' = committed st" "open_connections st' = open_connections st"
    and d: "(\<not> available st \<and>
        e = DatabaseError ''Database operation failed: unable to open database file'') \<or>
      (\<exists>conn' e'. body \<lparr>working = committed st, sent = sql_log st\<rparr> = (Inl e', conn') \<and>
         e = wrapped e')"
    by auto
  from d have "\<exists>m. e = DatabaseError (''Database operation failed: '' @ m)"
  proof
    assume "\<not> available st \<and>
      e = DatabaseError ''Database operation failed: unable to open database file''"
    then have "e = DatabaseError (''Database operation failed: '' @ ''unable to open database file'')"
      by simp
    then show ?thesis by blast
  next
    assume "\<exists>conn' e'. body \<lparr>working = committed st, sent = sql_log st\<rparr> = (Inl e', conn') \<and>
      e = wrapped e'"
    then obtain conn' e' where
      x: "body \<lparr>working = committed st, sent = sql_log st\<rparr> = (Inl e', conn')" "e = wrapped e'"
      by blast
    from b x(1) obtain m where "e' = Sqlite3Error m"
      unfolding engine_only_def by blast
    then show ?thesis using x(2) by (simp add: wrapped_def)
  qed
  then show ?thesis using u by simp
qed

lemma reraise_Inr: "reraise what r = (Inr x, st') \<Longrightarrow> r = (Inr x, st')"
  by (auto simp: reraise_def split: prod.splits sum.splits exn.splits)

lemma reraise_Inl: "reraise what r = (Inl e, st') \<Longrightarrow> \<exists>e'. r = (Inl e', st')"
  by (auto simp: reraise_def split: prod.splits sum.splits exn.splits)

lemma reraise_wrapped:
  assumes "reraise what (get_connection self body st) = (Inl e, st')" and "engine_only body"
  shows "committed st' = committed st \<and> open_connections st' = open_connections st \<and>
         (\<exists>m. e = DatabaseError (''Database operation failed: '' @ m))"
proof -
  from assms(1) obtain e0 where g: "get_connection self body st = (Inl e0, st')"
    using reraise_Inl by blast
  have r: "committed st' = committed st \<and> open_connections st' = open_connections st \<and>
         (\<exists>m. e0 = DatabaseError (''Database operation failed: '' @ m))"
    using g assms(2) by (rule engine_failure_wrapped)
  then obtain m where "e0 = DatabaseError (''Database operation failed: '' @ m)" by blast
  then have "e = e0" using assms(1) g by (simp add: reraise_def)
  then show ?thesis using r by simp
qed

subsection \<open>A failing operation changes nothing\<close>

text \<open>
  For five of the six operations: when the operation raises, the committed tables are
  those of before, the connection is closed, and what is raised for a failure of the
  engine is one \<^verbatim>\<open>DatabaseError\<close> with the engine's message. (\<^const>\<open>update_record\<close>
  and \<^const>\<open>insert_data\<close> can also fail before any statement is sent.)
\<close>

lemma engine_only_execute:
  "engine_only (\<lambda>conn. case execute s params conn of
                          (Inl e, conn') \<Rightarrow> (Inl e, conn')
                        | (Inr cur, conn') \<Rightarrow> (Inr (f cur), conn'))"
  by (auto simp: engine_only_def split: prod.splits sum.splits dest: execute_error)

lemma create_table_failure:
  assumes "create_table self sch st = (Inl e, st')"
  shows "committed st' = committed st \<and> open_connections st' = open_connections st \<and>
         (\<exists>m. e = DatabaseError (''Database operation failed: '' @ m))"
  using assms unfolding create_table_def Let_def
  by (rule reraise_wrapped) (rule engine_only_execute)

lemma create_record_failure:
  assumes "create_record self data st = (Inl e, st')"
  shows "committed st' = committed st \<and> open_connections st' = open_connections st \<and>
         (\<exists>m. e = DatabaseError (''Database operation failed: '' @ m))"
  using assms unfolding create_record_def Let_def
  by (rule reraise_wrapped) (rule engine_only_execute)

lemma engine_only_delete: "engine_only (delete_body t record_id)"
  by (auto simp: engine_only_def delete_body_def Let_def
      split: prod.splits sum.splits if_splits dest: execute_error)

lemma delete_record_failure:
  assumes "delete_record self record_id st = (Inl e, st')"
  shows "committed st' = committed st \<and> open_connections st' = open_connections st \<and>
         (\<exists>m. e = DatabaseError (''Database operation failed: '' @ m))"
  using assms unfolding delete_record_def
  by (rule reraise_wrapped) (rule engine_only_delete)

lemma update_record_no_keys:
  "update_record self record_id [] st = (Inl (IndexError ''list index out of range''), st)"
  by (simp add: update_record_def resolve_primary_key_def)

lemma update_record_failure:
  assumes "update_record self record_id data st = (Inl e, st')"
  shows "committed st' = committed st \<and> open_connections st' = open_connections st \<and>
         (if data = [] then e = IndexError ''list index out of range''
          else \<exists>m. e = DatabaseError (''Database operation failed: '' @ m))"
proof (cases "resolve_primary_key data")
  case (Inl e')
  then have "data = []"
    by (auto simp: resolve_primary_key_def split: if_splits list.splits)
  then show ?thesis using assms by (simp add: update_record_no_keys)
next
  case (Inr pk)
  then have ne: "data \<noteq> []" by (auto simp: resolve_primary_key_def)
  let ?set = "filter (\<lambda>col. col \<noteq> pk) (map fst data)"
  let ?vals = "map snd (filter (\<lambda>(col, v). col \<noteq> pk) data) @ [record_id]"
  let ?body = "\<lambda>conn. case execute (UpdateWhere (table_name self) ?set pk) ?vals conn of
                          (Inl e, conn') \<Rightarrow> (Inl e, conn')
                        | (Inr cur, conn') \<Rightarrow> (Inr (), conn')"
  have s: "?set \<noteq> []" using assms Inr by (auto simp: update_record_def Let_def)
  have "reraise ''Failed to update record'' (get_connection self ?body st) = (Inl e, st')"
    using assms Inr s by (simp add: update_record_def Let_def)
  then have "committed st' = committed st \<and> open_connections st' = open_connections st \<and>
         (\<exists>m. e = DatabaseError (''Database operation failed: '' @ m))"
    by (rule reraise_wrapped) (rule engine_only_execute)
  then show ?thesis using ne by simp
qed

lemma row_tuple_error:
  "row_tuple df i cols = Inl e \<Longrightarrow> (\<exists>k. e = KeyError k) \<or> e = ValueError ambiguous"
  by (induction cols arbitrary: e)
     (auto simp: get_column_def split: sum.splits list.splits prod.splits)

lemma data_to_insert_error:
  "data_to_insert df rows cols = Inl e \<Longrightarrow> (\<exists>k. e = KeyError k) \<or> e = ValueError ambiguous"
  by (induction rows arbitrary: e) (auto split: sum.splits dest: row_tuple_error)

lemma insert_data_failure:
  assumes "insert_data self df sch st = (Inl e, st')"
  shows "committed st' = committed st \<and> open_connections st' = open_connections st \<and>
         ((\<exists>m. e = DatabaseError (''Database operation failed: '' @ m)) \<or>
          (\<exists>k. e = KeyError k) \<or> e = ValueError ambiguous)"
proof -
  let ?cols = "insert_columns df sch"
  let ?body = "\<lambda>conn. case data_to_insert df [0..<nrows df] ?cols of
                         Inl e \<Rightarrow> (Inl e, conn)
                       | Inr rows \<Rightarrow> executemany (InsertInto (table_name self) ?cols) rows conn"
  let ?conn = "\<lparr>working = committed st, sent = sql_log st\<rparr>"
  from assms obtain e0 where g: "get_connection self ?body st = (Inl e0, st')"
    unfolding insert_data_def Let_def using reraise_Inl by blast
  from get_connection_failure [OF g]
  have u: "committed st' = committed st" "open_connections st' = open_connections st"
    and d: "(\<not> available st \<and>
        e0 = DatabaseError ''Database operation failed: unable to open database file'') \<or>
      (\<exists>conn' e'. ?body ?conn = (Inl e', conn') \<and> e0 = wrapped e')"
    by auto
  have c: "(\<exists>m. e0 = DatabaseError (''Database operation failed: '' @ m)) \<or>
          (\<exists>k. e0 = KeyError k) \<or> e0 = ValueError ambiguous"
    using d
  proof
    assume "\<not> available st \<and>
      e0 = DatabaseError ''Database operation failed: unable to open database file''"
    then have "e0 = DatabaseError (''Database operation failed: '' @ ''unable to open database file'')"
      by simp
    then show ?thesis by blast
  next
    assume "\<exists>conn' e'. ?body ?conn = (Inl e', conn') \<and> e0 = wrapped e'"
    then obtain conn' e' where x: "?body ?conn = (Inl e', conn')" "e0 = wrapped e'"
      by blast
    show ?thesis
    proof (cases "data_to_insert df [0..<nrows df] ?cols")
      case (Inl e1)
      then have "e' = e1" using x(1) by simp
      then have "(\<exists>k. e' = KeyError k) \<or> e' = ValueError ambiguous"
        using data_to_insert_error [OF Inl] by simp
      then show ?thesis using x(2) by (auto simp: wrapped_def)
    next
      case (Inr rows)
      then have "executemany (InsertInto (table_name self) ?cols) rows ?conn = (Inl e', conn')"
        using x(1) by simp
      then obtain m where "e' = Sqlite3Error m" using executemany_error by blast
      then show ?thesis using x(2) by (simp add: wrapped_def)
    qed
  qed
  then have "e = e0" using assms g by (auto simp: insert_data_def reraise_def Let_def)
  then show ?thesis using u c by simp
qed

subsection \<open>\<^const>\<open>create_table\<close> twice\<close>

lemma create_table_on_existing:
  assumes "col_defs sch \<noteq> []" and "available st"
    and "find_table (committed st) (table_name self) \<noteq> None"
  shows "create_table self sch st =
     (Inr (), st\<lparr>sql_log := sql_log st @
        [(CreateTableIfNotExists (table_name self) (col_defs sch), [])]\<rparr>)"
  using assms
  by (auto simp: create_table_def get_connection_def execute_def run_stmt_def reraise_def
      exec_create_def Let_def)

lemma create_table_Inr:
  assumes "create_table self sch st = (Inr (), st1)"
  shows "col_defs sch \<noteq> [] \<and> available st \<and> available st1 \<and>
         find_table (committed st1) (table_name self) \<noteq> None"
proof -
  let ?t = "table_name self" and ?defs = "col_defs sch"
  let ?body = "\<lambda>conn. case execute (CreateTableIfNotExists ?t ?defs) [] conn of
                          (Inl e, conn') \<Rightarrow> (Inl e, conn')
                        | (Inr cur, conn') \<Rightarrow> (Inr (), conn')"
  have "get_connection self ?body st = (Inr (), st1)"
    using assms unfolding create_table_def Let_def by (rule reraise_Inr)
  then have "available st \<and>
     (\<exists>conn'. ?body \<lparr>working = committed st, sent = sql_log st\<rparr> = (Inr (), conn') \<and>
        st1 = st\<lparr>committed := working conn', sql_log := sent conn'\<rparr>)"
    by (rule get_connection_Inr)
  then obtain conn' where av: "available st"
    and b: "?body \<lparr>working = committed st, sent = sql_log st\<rparr> = (Inr (), conn')"
    and st1: "st1 = st\<lparr>committed := working conn', sql_log := sent conn'\<rparr>"
    by auto
  from b have c: "exec_create ?t ?defs (committed st) = Inr (working conn')"
    by (auto simp: execute_def run_stmt_def Let_def split: sum.splits prod.splits)
  then have "?defs \<noteq> [] \<and> find_table (working conn') ?t \<noteq> None"
    by (rule exec_create_exists)
  then show ?thesis using av st1 by simp
qed

text \<open>
  Claim C8. After \<^const>\<open>create_table\<close> has returned for a schema, a second call with the
  same schema returns too and leaves the committed tables, the rows of the managed one
  among them, as they are; so does every later call, whatever rows the managed table has
  by then.
\<close>

theorem create_table_idempotent:
  assumes "create_table self sch st = (Inr (), st1)"
  shows "(\<exists>st2. create_table self sch st1 = (Inr (), st2) \<and> committed st2 = committed st1) \<and>
         (\<forall>st'. available st' \<and> find_table (committed st') (table_name self) \<noteq> None \<longrightarrow>
            (\<exists>st2. create_table self sch st' = (Inr (), st2) \<and> committed st2 = committed st'))"
proof -
  from create_table_Inr [OF assms]
  have d: "col_defs sch \<noteq> []" and a1: "available st1"
    and t1: "find_table (committed st1) (table_name self) \<noteq> None"
    by simp_all
  have later: "\<exists>st2. create_table self sch st' = (Inr (), st2) \<and> committed st2 = committed st'"
    if "available st'" and "find_table (committed st') (table_name self) \<noteq> None" for st'
    using create_table_on_existing [OF d that] by simp
  from later [OF a1 t1] later show ?thesis by blast
qed

theorem create_table_idempotent_witness:
  "\<exists>st1 st2. create_table default_manager people_schema empty_store = (Inr (), st1) \<and>
     create_table default_manager people_schema st1 = (Inr (), st2) \<and>
     committed st2 = committed st1 \<and>
     map fst (committed st1) = [''data'']"
proof -
  let ?r = "create_table default_manager people_schema empty_store"
  have "fst ?r = Inr ()" by code_simp
  then have h: "?r = (Inr (), snd ?r)" by (simp add: prod_eq_iff)
  have t: "map fst (committed (snd ?r)) = [''data'']" by code_simp
  from create_table_idempotent [OF h] obtain st2 where
    s: "create_table default_manager people_schema (snd ?r) = (Inr (), st2)"
    and c: "committed st2 = committed (snd ?r)" by blast
  have "?r = (Inr (), snd ?r) \<and>
     create_table default_manager people_schema (snd ?r) = (Inr (), st2) \<and>
     committed st2 = committed (snd ?r) \<and>
     map fst (committed (snd ?r)) = [''data'']"
    using h s c t by (intro conjI)
  then show ?thesis by (intro exI)
qed

subsection \<open>\<^const>\<open>update_record\<close> with nothing to update\<close>

text \<open>
  Claim C9. For a non-empty record, the primary-key column that \<^const>\<open>update_record\<close>
  resolves is \<^verbatim>\<open>id\<close> if that is a key of the record, and the record's first key
  otherwise. When the record has no other key than the resolved one, the call returns
  normally and the state after it is the state before it: the tables, and the list of
  statements sent, to which nothing was added.
\<close>

theorem update_record_key_only:
  assumes "data \<noteq> []"
  shows "resolve_primary_key data =
           Inr (if ''id'' \<in> set (map fst data) then ''id'' else fst (hd data)) \<and>
         (\<forall>pk. resolve_primary_key data = Inr pk \<and> set (map fst data) = {pk} \<longrightarrow>
            update_record self record_id data st = (Inr (), st))"
proof -
  have r: "resolve_primary_key data =
           Inr (if ''id'' \<in> set (map fst data) then ''id'' else fst (hd data))"
    using assms by (cases data) (auto simp: resolve_primary_key_def)
  have "update_record self record_id data st = (Inr (), st)"
    if "resolve_primary_key data = Inr pk" and "set (map fst data) = {pk}" for pk
  proof -
    have "filter (\<lambda>col. col \<noteq> pk) (map fst data) = []"
      using that(2) by (auto simp: filter_empty_conv)
    then show ?thesis using that(1) by (simp add: update_record_def)
  qed
  with r show ?thesis by blast
qed

theorem update_record_key_only_witness:
  "resolve_primary_key [(''name'', SText ''Alice'')] = Inr ''name'' \<and>
   update_record default_manager (SInt 1) [(''name'', SText ''Alice'')] empty_store =
     (Inr (), empty_store) \<and>
   resolve_primary_key [(''name'', SText ''Alice''), (''id'', SInt 1)] = Inr ''id''"
proof -
  have a: "[(''name'', SText ''Alice'')] \<noteq> []"
    and b: "[(''name'', SText ''Alice''), (''id'', SInt 1)] \<noteq> []"
    by simp_all
  show ?thesis
    using update_record_key_only [OF a, of default_manager "SInt 1" empty_store]
      update_record_key_only [OF b, of default_manager "SInt 1" empty_store]
    by simp
qed

text \<open>
  Claim C10. With an empty record, \<^const>\<open>update_record\<close> raises the \<^verbatim>\<open>IndexError\<close> of
  \<^verbatim>\<open>list(data.keys())[0]\<close>, whatever the key; the state is untouched, so no connection
  was opened and no statement sent, and no handler turns the exception into a
  \<^verbatim>\<open>DatabaseError\<close>.
\<close>

theorem update_record_empty_record:
  "update_record self record_id [] st = (Inl (IndexError ''list index out of range''), st)"
  by (rule update_record_no_keys)

subsection \<open>\<^const>\<open>read_all\<close> when the engine fails\<close>

text \<open>
  What \<^const>\<open>read_all\<close> raises is never the adapter's \<^verbatim>\<open>DatabaseError\<close> for a
  statement that the engine refused: that failure arrives as the exception of pandas.
\<close>

lemma read_all_failure:
  assumes "read_all self st = (Inl e, st')"
  shows "committed st' = committed st \<and> open_connections st' = open_connections st \<and>
         (e = DatabaseError ''Database operation failed: unable to open database file'' \<or>
          (\<exists>m. e = PandasDatabaseError m))"
proof -
  let ?body = "\<lambda>conn. read_sql_query (table_name self) conn"
  let ?conn = "\<lparr>working = committed st, sent = sql_log st\<rparr>"
  from assms obtain e0 where g: "get_connection self ?body st = (Inl e0, st')"
    unfolding read_all_def using reraise_Inl by blast
  from get_connection_failure [OF g]
  have u: "committed st' = committed st" "open_connections st' = open_connections st"
    and d: "(\<not> available st \<and>
        e0 = DatabaseError ''Database operation failed: unable to open database file'') \<or>
      (\<exists>conn' e'. ?body ?conn = (Inl e', conn') \<and> e0 = wrapped e')"
    by auto
  have b: "\<exists>m. e' = PandasDatabaseError m" if "?body conn = (Inl e', conn')" for conn e' conn'
    using that by (auto simp: read_sql_query_def split: prod.splits sum.splits)
  have c: "e0 = DatabaseError ''Database operation failed: unable to open database file'' \<or>
          (\<exists>m. e0 = PandasDatabaseError m)"
    using d
  proof
    assume "\<not> available st \<and>
        e0 = DatabaseError ''Database operation failed: unable to open database file''"
    then show ?thesis by simp
  next
    assume "\<exists>conn' e'. ?body ?conn = (Inl e', conn') \<and> e0 = wrapped e'"
    then obtain conn' e' where x: "?body ?conn = (Inl e', conn')" "e0 = wrapped e'"
      by blast
    from b [OF x(1)] obtain m where "e' = PandasDatabaseError m" by blast
    then show ?thesis using x(2) by (simp add: wrapped_def)
  qed
  then have "e = e0" using assms g by (auto simp: read_all_def reraise_def)
  then show ?thesis using u c by simp
qed

lemma read_all_no_table:
  assumes "available st" and "find_table (committed st) (table_name self) = None"
  shows "read_all self st =
     (Inl (PandasDatabaseError
        (''Execution failed on sql '' @ [CHR 0x27] @ ''SELECT * FROM '' @ table_name self @
         [CHR 0x27] @ '': '' @ ''no such table: '' @ table_name self)),
      st\<lparr>sql_log := sql_log st @ [(SelectAll (table_name self), [])]\<rparr>)"
  using assms
  by (simp add: read_all_def get_connection_def read_sql_query_def execute_def run_stmt_def
      exec_select_def no_such_table_def reraise_def Let_def)

text \<open>
  Claim C6 says that when the engine fails during one of the six operations, the
  transaction is rolled back, the rows are as before the call, the connection is released
  and a single \<^verbatim>\<open>DatabaseError\<close> with the engine's message is raised. The five
  operations above do that; \<^const>\<open>read_all\<close> does not. On a database without the managed
  table the engine refuses the \<^verbatim>\<open>SELECT\<close>; nothing is committed and the connection is
  closed, but the exception that reaches the caller is the
  \<^verbatim>\<open>pandas.errors.DatabaseError\<close> that \<^verbatim>\<open>pd.read_sql_query\<close> raised, which neither
  \<^verbatim>\<open>except sqlite3.Error\<close> catches, and not the adapter's \<^verbatim>\<open>DatabaseError\<close>.
\<close>

theorem read_all_raises_pandas_error:
  "read_all default_manager empty_store =
     (Inl (PandasDatabaseError
        (''Execution failed on sql '' @ [CHR 0x27] @ ''SELECT * FROM data'' @ [CHR 0x27] @
         '': no such table: data'')),
      empty_store\<lparr>sql_log := [(SelectAll ''data'', [])]\<rparr>)"
  by code_simp

subsection \<open>\<^const>\<open>delete_record\<close> on a table without a column \<^verbatim>\<open>id\<close>\<close>

text \<open>
  On a table that has no column named \<^verbatim>\<open>id\<close>, the operation ends with the first
  statement: the engine refuses it, and no metadata is read.
\<close>

lemma delete_record_no_id_column:
  assumes "available st"
    and "find_table (committed st) (table_name self) = Some tb"
    and "column_index (t_columns tb) ''id'' = None"
  shows "delete_record self record_id st =
     (Inl (DatabaseError ''Database operation failed: no such column: id''),
      st\<lparr>sql_log := sql_log st @ [(DeleteWhere (table_name self) ''id'', [record_id])]\<rparr>)"
  using assms
  by (simp add: delete_record_def get_connection_def delete_body_def execute_def run_stmt_def
      exec_delete_def no_such_column_def reraise_def Let_def)

text \<open>
  Claim C2 says that on a table whose primary-key column is not named \<^verbatim>\<open>id\<close> and
  that holds a row with the given key, \<^verbatim>\<open>delete_record\<close> first deletes by \<^verbatim>\<open>id\<close>,
  which affects no row, then finds the primary-key column in the metadata and deletes the
  row, raising nothing. It fails on the code. The table is created with the primary key
  \<^verbatim>\<open>code\<close> and holds the row with \<^verbatim>\<open>code\<close> 1. \<^verbatim>\<open>delete_record(1)\<close> sends the
  statement on \<^verbatim>\<open>id\<close>; the engine refuses it, there being no such column, and the
  operation ends there with a \<^verbatim>\<open>DatabaseError\<close>: no metadata is read, no second
  statement is sent, the row stays.
\<close>

theorem delete_record_without_id_column:
  "(let r1 = create_table default_manager people_schema empty_store;
        r2 = create_record default_manager alice (snd r1);
        r3 = delete_record default_manager (SInt 1) (snd r2)
    in fst r1 = Inr () \<and> fst r2 = Inr (Some 1) \<and>
       map (\<lambda>(t, tb). (t, map cname (t_columns tb), pk_name (t_columns tb), t_rows tb))
         (committed (snd r2)) =
         [(''data'', [''code'', ''name''], ''code'', [(1, [SInt 1, SText ''Alice''])])] \<and>
       r3 = (Inl (DatabaseError ''Database operation failed: no such column: id''),
             (snd r2)\<lparr>sql_log := sql_log (snd r2) @ [(DeleteWhere ''data'' ''id'', [SInt 1])]\<rparr>))"
  by code_simp

text \<open>
  The second phase is reached when the table has a column named \<^verbatim>\<open>id\<close> that is not
  its key and holds the given value in no row: the statement on \<^verbatim>\<open>id\<close> changes no row,
  the metadata names \<^verbatim>\<open>code\<close>, and the statement on \<^verbatim>\<open>code\<close> deletes the row.
\<close>

lemma delete_record_second_phase:
  "(let r1 = create_table default_manager badge_schema empty_store;
        r2 = create_record default_manager badge (snd r1);
        r3 = delete_record default_manager (SInt 1) (snd r2)
    in fst r1 = Inr () \<and> fst r2 = Inr (Some 1) \<and> fst r3 = Inr () \<and>
       map (\<lambda>(t, tb). (t, t_rows tb)) (committed (snd r2)) = [(''data'', [(1, [SInt 1, SInt 7])])] \<and>
       map (\<lambda>(t, tb). (t, t_rows tb)) (committed (snd r3)) = [(''data'', [])] \<and>
       sql_log (snd r3) = sql_log (snd r2) @
         [(DeleteWhere ''data'' ''id'', [SInt 1]), (PragmaTableInfo ''data'', []),
          (DeleteWhere ''data'' ''code'', [SInt 1])])"
  by code_simp

subsection \<open>Loading a sheet with a repeating column \<^verbatim>\<open>id\<close>\<close>

text \<open>
  Claim C7 says that, for the schema detected from a dataset, \<^verbatim>\<open>create_table\<close>, then
  \<^verbatim>\<open>insert_data\<close> of the dataset, then \<^verbatim>\<open>read_all\<close> returns as many rows as the
  dataset has, with the values of the dataset (dates as ISO-8601 text, missing values as
  null). It fails on the code. The sheet has three rows and no column without
  repetition, so the detected primary key is the generated \<^verbatim>\<open>id\<close>; but the sheet has a
  column of that name, which \<^const>\<open>create_table\<close> declares
  \<^verbatim>\<open>INTEGER PRIMARY KEY AUTOINCREMENT\<close> and \<^const>\<open>insert_data\<close> fills from the sheet. The
  second row repeats the first one's \<^verbatim>\<open>id\<close>: the load raises, is rolled back, and
  \<^const>\<open>read_all\<close> returns no row.
\<close>

theorem round_trip_fails_on_repeating_id:
  "nrows orders_frame = 3 \<and>
   (\<exists>sch. detect_schema never_dates orders_frame = Inr sch \<and>
      columns sch = [''id'', ''category''] \<and> primary_key sch = ''id'' \<and>
      (let r1 = create_table default_manager sch empty_store;
           r2 = insert_data default_manager orders_frame sch (snd r1);
           r3 = read_all default_manager (snd r2)
       in fst r1 = Inr () \<and>
          fst r2 = Inl (DatabaseError ''Database operation failed: UNIQUE constraint failed: data.id'') \<and>
          fst r3 = Inr \<lparr>rf_columns = [''id'', ''category''], rf_rows = []\<rparr>))"
proof -
  have "case detect_schema never_dates orders_frame of
          Inl e \<Rightarrow> False
        | Inr sch \<Rightarrow>
            columns sch = [''id'', ''category''] \<and> primary_key sch = ''id'' \<and>
            (let r1 = create_table default_manager sch empty_store;
                 r2 = insert_data default_manager orders_frame sch (snd r1);
                 r3 = read_all default_manager (snd r2)
             in fst r1 = Inr () \<and>
                fst r2 = Inl (DatabaseError ''Database operation failed: UNIQUE constraint failed: data.id'') \<and>
                fst r3 = Inr \<lparr>rf_columns = [''id'', ''category''], rf_rows = []\<rparr>)"
    by code_simp
  moreover have "nrows orders_frame = 3" by (simp add: orders_frame_def)
  ultimately show ?thesis by (auto split: sum.splits)
qed

end
